theory Spec2Isabelle
  imports Complex_Main "HOL-Library.AList"
begin


section \<open>Data model (core/models.py)\<close>

text \<open>
  The three entities of \<^verbatim>\<open>core/models.py\<close>. A table of the database is an association
  list from primary key to row; a foreign key is the primary key of the row it points to,
  and a related object (\<^verbatim>\<open>self.owner\<close>, \<^verbatim>\<open>self.tenant\<close>, ...) is read through the
  table by that key, as the ORM does for an instance loaded from the database. Decimal
  amounts (two decimal places) are counted in hundredths. The timestamp columns
  \<^verbatim>\<open>created_at\<close> and \<^verbatim>\<open>updated_at\<close> are left out: they need a clock and none of the
  operations below reads them.
\<close>

datatype ContactType = LANDLORD | TENANT

datatype UnitType = APARTMENT | HOUSE | CONDO | COMMERCIAL | OTHER

datatype UnitStatus = VACANT | OCCUPIED | MAINTENANCE

datatype PaymentFrequency = MONTHLY | QUARTERLY | SEMI_ANNUAL | ANNUAL

record date =
  year :: int
  month :: int
  day :: int

record Contact =
  name :: string
  contact_type :: ContactType
  email :: string
  phone :: string
  address :: string

record Unit =
  unit_number :: string
  type :: UnitType
  location :: string
  val :: int
  status :: UnitStatus
  owner_id :: nat

record Lease =
  unit_id :: nat
  tenant_id :: nat
  landlord_id :: nat
  start_date :: date
  duration :: int
  rent_amount :: int
  payment_frequency :: PaymentFrequency

text \<open>
  The database backend is chosen by the project's settings, which are not among the
  sources. Two of its properties matter to the operations below and are parameters of the
  store: the range of an integer column that the backend announces
  (\<^verbatim>\<open>connection.ops.integer_field_range\<close>, from which the framework derives validators of
  an \<^verbatim>\<open>IntegerField\<close>; \<open>None\<close> when it announces none), and which Lease rows it accepts
  on an insert or update (a duration within its integers, a rent of no more digits than
  the column \<^verbatim>\<open>max_digits=10, decimal_places=2\<close> holds).
\<close>

record backend =
  integer_field_range :: "(int \<times> int) option"
  stores_lease :: "Lease \<Rightarrow> bool"

record store =
  contacts :: "(nat \<times> Contact) list"
  units :: "(nat \<times> Unit) list"
  leases :: "(nat \<times> Lease) list"
  backend :: backend

text \<open>
  The exceptions the code raises, as values. \<open>ValueError\<close> carries the message of the
  \<^verbatim>\<open>raise\<close>; \<open>ValidationError\<close> carries the dictionary given to
  \<^verbatim>\<open>serializers.ValidationError\<close>, as the list of its keys and messages; \<open>DoesNotExist\<close>
  is what reading a related object raises when its row is absent; \<open>IntegrityError\<close> is
  the violation of a constraint of a table, here the \<^verbatim>\<open>unique=True\<close> of
  \<^verbatim>\<open>unit_number\<close>; \<open>DatabaseError\<close> stands for what a row write raises on a value the
  database cannot store (the class of the exception depends on the backend);
  \<open>FieldError\<close> is what the ORM raises for a filter keyword that is no field of the
  model; \<open>Http404\<close> is what a view raises for a key without row;
  \<open>AssertionError\<close>, \<open>OverflowError\<close> and \<open>ZeroDivisionError\<close> are Python's own.
\<close>

datatype error =
    ValueError string
  | ValidationError "(string \<times> string) list"
  | DoesNotExist
  | IntegrityError
  | DatabaseError
  | FieldError string
  | Http404
  | AssertionError
  | OverflowError
  | ZeroDivisionError

definition tenant_msg :: string where
  "tenant_msg = ''Tenant must be of type 'Tenant'' @ [CHR 0x27]"

definition landlord_msg :: string where
  "landlord_msg = ''Landlord must be of type 'Landlord'' @ [CHR 0x27]"

definition owner_msg :: string where
  "owner_msg = ''Landlord of the lease must be the owner of the unit''"

definition unit_owner_msg :: string where
  "unit_owner_msg = ''Unit owner must be a landlord''"

section \<open>Writing rows\<close>

text \<open>
  \<^verbatim>\<open>models.Model.save\<close>: an instance without primary key is inserted under a fresh key
  (here one more than the largest key of the table); an instance with a primary key
  replaces the row of that key, or is inserted under it when there is no such row.
  \<open>AList.update\<close> does the latter two. The argument \<open>pk\<close> of the functions below is the
  primary key of the instance, \<open>None\<close> for one that was never saved.
\<close>

definition fresh_pk :: "(nat \<times> 'a) list \<Rightarrow> nat" where
  "fresh_pk rows = Suc (fold max (map fst rows) 0)"

definition pk_of :: "nat option \<Rightarrow> (nat \<times> 'a) list \<Rightarrow> nat" where
  "pk_of pk rows = (case pk of None \<Rightarrow> fresh_pk rows | Some i \<Rightarrow> i)"

text \<open>The row write of a Unit; \<^verbatim>\<open>unit_number\<close> is declared \<^verbatim>\<open>unique=True\<close>.\<close>

definition Unit_super_save :: "store \<Rightarrow> nat option \<Rightarrow> Unit \<Rightarrow> (error + nat) \<times> store" where
  "Unit_super_save s pk u =
     (let i = pk_of pk (units s) in
      if list_ex (\<lambda>(j, v). j \<noteq> i \<and> unit_number v = unit_number u) (units s)
      then (Inl IntegrityError, s)
      else (Inr i, s\<lparr>units := AList.update i u (units s)\<rparr>))"

text \<open>
  \<^verbatim>\<open>Unit.save\<close> (models.py, lines 81 to 85):
  \<^verbatim>\<open>
    if self.owner.contact_type != Contact.ContactType.LANDLORD:
        raise ValueError("Unit owner must be a landlord")
    super().save(*args, **kwargs)
  \<close>
\<close>

definition Unit_save :: "store \<Rightarrow> nat option \<Rightarrow> Unit \<Rightarrow> (error + nat) \<times> store" where
  "Unit_save s pk u =
     (case map_of (contacts s) (owner_id u) of
        None \<Rightarrow> (Inl DoesNotExist, s)
      | Some owner \<Rightarrow>
          if contact_type owner \<noteq> LANDLORD then (Inl (ValueError unit_owner_msg), s)
          else Unit_super_save s pk u)"

text \<open>
  The row write of a Lease. The table has no uniqueness constraint besides the key; the
  write raises when the backend does not accept the values of the row.
\<close>

definition Lease_super_save :: "store \<Rightarrow> nat option \<Rightarrow> Lease \<Rightarrow> (error + nat) \<times> store" where
  "Lease_super_save s pk l =
     (if \<not> stores_lease (backend s) l then (Inl DatabaseError, s)
      else (let i = pk_of pk (leases s) in (Inr i, s\<lparr>leases := AList.update i l (leases s)\<rparr>)))"

text \<open>
  \<^verbatim>\<open>Lease.save\<close> (models.py, lines 136 to 158):
  \<^verbatim>\<open>
    if self.tenant.contact_type != Contact.ContactType.TENANT:
        raise ValueError("Tenant must be of type 'Tenant'")
    if self.landlord.contact_type != Contact.ContactType.LANDLORD:
        raise ValueError("Landlord must be of type 'Landlord'")
    if self.landlord != self.unit.owner:
        raise ValueError("Landlord of the lease must be the owner of the unit")
    if self.unit.status != Unit.UnitStatus.OCCUPIED:
        self.unit.status = Unit.UnitStatus.OCCUPIED
        self.unit.save()
    super().save(*args, **kwargs)
  \<close>
  Two model instances are equal when their primary keys are, so the third test compares
  the landlord's key with the key of the unit's owner, once both objects are loaded.
  The result is the outcome (the error raised, or the key of the written row)
  together with the store as the call leaves it. No transaction encloses the two row
  writes: when the write of the Lease raises, the write of the Unit stays.
\<close>

definition Lease_save :: "store \<Rightarrow> nat option \<Rightarrow> Lease \<Rightarrow> (error + nat) \<times> store" where
  "Lease_save s pk l =
     (case map_of (contacts s) (tenant_id l) of
        None \<Rightarrow> (Inl DoesNotExist, s)
      | Some tenant \<Rightarrow>
          if contact_type tenant \<noteq> TENANT then (Inl (ValueError tenant_msg), s)
          else
            (case map_of (contacts s) (landlord_id l) of
               None \<Rightarrow> (Inl DoesNotExist, s)
             | Some landlord \<Rightarrow>
                 if contact_type landlord \<noteq> LANDLORD then (Inl (ValueError landlord_msg), s)
                 else
                   (case map_of (units s) (unit_id l) of
                      None \<Rightarrow> (Inl DoesNotExist, s)
                    | Some unit \<Rightarrow>
                        (case map_of (contacts s) (owner_id unit) of
                           None \<Rightarrow> (Inl DoesNotExist, s)
                         | Some owner \<Rightarrow>
                             if landlord_id l \<noteq> owner_id unit then (Inl (ValueError owner_msg), s)
                             else
                               (case (if status unit \<noteq> OCCUPIED
                                      then Unit_save s (Some (unit_id l)) (unit\<lparr>status := OCCUPIED\<rparr>)
                                      else (Inr (unit_id l), s)) of
                                  (Inl e, s') \<Rightarrow> (Inl e, s')
                                | (Inr _, s') \<Rightarrow> Lease_super_save s' pk l)))))"

section \<open>The Lease Calculator (core/serializers.py)\<close>

text \<open>
  \<^verbatim>\<open>LeaseDetailSerializer.get_end_date\<close> adds a \<^verbatim>\<open>dateutil\<close> \<^verbatim>\<open>relativedelta\<close> to a
  \<^verbatim>\<open>datetime.date\<close>. Both are library code; the definitions below follow their
  sources. \<^verbatim>\<open>calendar.isleap\<close>, \<^verbatim>\<open>calendar.mdays\<close> and the day count returned by
  \<^verbatim>\<open>calendar.monthrange\<close>:
\<close>

definition isleap :: "int \<Rightarrow> bool" where
  "isleap y \<longleftrightarrow> y mod 4 = 0 \<and> (y mod 100 \<noteq> 0 \<or> y mod 400 = 0)"

definition mdays :: "int list" where
  "mdays = [0, 31, 28, 31, 30, 31, 30, 31, 31, 30, 31, 30, 31]"

definition month_msg :: string where
  "month_msg = ''bad month number; must be 1-12''"

definition monthrange_ndays :: "int \<Rightarrow> int \<Rightarrow> error + int" where
  "monthrange_ndays y m =
     (if \<not> (1 \<le> m \<and> m \<le> 12) then Inl (ValueError month_msg)
      else Inr (mdays ! nat m + (if m = 2 \<and> isleap y then 1 else 0)))"

text \<open>
  The constructor of \<^verbatim>\<open>datetime.date\<close>, which \<^verbatim>\<open>date.replace\<close> calls: the year is within
  \<^verbatim>\<open>MINYEAR = 1\<close> and \<^verbatim>\<open>MAXYEAR = 9999\<close>, the month within 1 and 12, the day within the
  month; otherwise it raises \<open>ValueError\<close> (the messages, which in Python quote the
  offending number, are shortened). The arguments are read as C integers of 32 bits: a
  year outside their range raises \<open>OverflowError\<close> before any of these tests (month and
  day are small wherever the constructor is called here). A \<open>date\<close> value is valid when
  the constructor accepts its fields.
\<close>

definition year_msg :: string where
  "year_msg = ''year is out of range''"

definition day_msg :: string where
  "day_msg = ''day is out of range for month''"

definition date_new :: "int \<Rightarrow> int \<Rightarrow> int \<Rightarrow> error + date" where
  "date_new y m d =
     (if \<not> (- 2147483648 \<le> y \<and> y \<le> 2147483647) then Inl OverflowError
      else if \<not> (1 \<le> y \<and> y \<le> 9999) then Inl (ValueError year_msg)
      else
        (case monthrange_ndays y m of
           Inl e \<Rightarrow> Inl e
         | Inr n \<Rightarrow>
             if \<not> (1 \<le> d \<and> d \<le> n) then Inl (ValueError day_msg)
             else Inr \<lparr>year = y, month = m, day = d\<rparr>))"

definition valid_date :: "date \<Rightarrow> bool" where
  "valid_date d \<longleftrightarrow> date_new (year d) (month d) (day d) = Inr d"

text \<open>
  \<^verbatim>\<open>relativedelta(months=n)\<close>: the constructor stores \<^verbatim>\<open>years = 0\<close> and
  \<^verbatim>\<open>months = n\<close> and calls \<^verbatim>\<open>_fix\<close>, which carries whole years out of the months:
  \<^verbatim>\<open>
    if abs(self.months) > 11:
        s = _sign(self.months)
        div, mod = divmod(self.months * s, 12)
        self.months = mod * s
        self.years += div * s
  \<close>
  The other fields of the delta (days, hours, weekday, absolute fields) stay at their
  defaults and play no part.
\<close>

record relativedelta =
  years :: int
  months :: int

definition sign :: "int \<Rightarrow> int" where
  "sign x = (if x < 0 then - 1 else 1)"

definition relativedelta_fix :: "relativedelta \<Rightarrow> relativedelta" where
  "relativedelta_fix rd =
     (if \<bar>months rd\<bar> > 11
      then (let s = sign (months rd);
                dv = (months rd * s) div 12;
                md = (months rd * s) mod 12
            in \<lparr>years = years rd + dv * s, months = md * s\<rparr>)
      else rd)"

definition relativedelta_months :: "int \<Rightarrow> relativedelta" where
  "relativedelta_months n = relativedelta_fix \<lparr>years = 0, months = n\<rparr>"

text \<open>
  \<^verbatim>\<open>relativedelta.__add__\<close>, reached through \<^verbatim>\<open>__radd__\<close> by \<^verbatim>\<open>date + delta\<close>:
  \<^verbatim>\<open>
    year = (self.year or dt.year) + self.years
    month = self.month or dt.month
    if self.months:
        assert 1 <= abs(self.months) <= 12
        month += self.months
        if month > 12:
            year += 1
            month -= 12
        elif month < 1:
            year -= 1
            month += 12
    day = min(calendar.monthrange(year, month)[1], self.day or dt.day)
    repl = {"year": year, "month": month, "day": day}
    ...
    ret = dt.replace(**repl) + datetime.timedelta(days=days, ...)
  \<close>
  with a zero \<^verbatim>\<open>timedelta\<close> here.
\<close>

definition relativedelta_add :: "relativedelta \<Rightarrow> date \<Rightarrow> error + date" where
  "relativedelta_add rd dt =
     (if months rd \<noteq> 0 \<and> \<not> (1 \<le> \<bar>months rd\<bar> \<and> \<bar>months rd\<bar> \<le> 12) then Inl AssertionError
      else
        (let y0 = year dt + years rd;
             m0 = month dt;
             (y, m) = (if months rd \<noteq> 0
                       then (if m0 + months rd > 12 then (y0 + 1, m0 + months rd - 12)
                             else if m0 + months rd < 1 then (y0 - 1, m0 + months rd + 12)
                             else (y0, m0 + months rd))
                       else (y0, m0))
         in case monthrange_ndays y m of
              Inl e \<Rightarrow> Inl e
            | Inr n \<Rightarrow> date_new y m (min n (day dt))))"

text \<open>
  \<^verbatim>\<open>get_end_date\<close> (serializers.py, lines 123 to 129), on the two attributes it reads,
  \<^verbatim>\<open>obj.start_date\<close> (\<open>None\<close> when unset) and \<^verbatim>\<open>obj.duration\<close>:
  \<^verbatim>\<open>
    if obj.start_date:
        return obj.start_date + relativedelta(months=obj.duration)
    return None
  \<close>
\<close>

definition get_end_date :: "date option \<Rightarrow> int \<Rightarrow> error + date option" where
  "get_end_date sd du =
     (case sd of
        None \<Rightarrow> Inr None
      | Some d \<Rightarrow>
          (case relativedelta_add (relativedelta_months du) d of
             Inl e \<Rightarrow> Inl e
           | Inr r \<Rightarrow> Inr (Some r)))"

text \<open>
  The specification's end date, in its own words: the start date plus \<open>n\<close> calendar
  months, the day of the month clamped to the last valid day of the target month. Months
  are counted from year 0, month 0.
\<close>

definition last_day :: "int \<Rightarrow> int \<Rightarrow> int" where
  "last_day y m =
     (if m = 2 then (if isleap y then 29 else 28)
      else if m = 4 \<or> m = 6 \<or> m = 9 \<or> m = 11 then 30 else 31)"

definition add_months :: "date \<Rightarrow> int \<Rightarrow> date" where
  "add_months d n =
     (let t = year d * 12 + (month d - 1) + n; y = t div 12; m = t mod 12 + 1
      in \<lparr>year = y, month = m, day = min (day d) (last_day y m)\<rparr>)"

section \<open>Printing integers\<close>

text \<open>\<^verbatim>\<open>str\<close> of a natural number: its decimal digits.\<close>

definition digit_char :: "nat \<Rightarrow> char" where
  "digit_char d = ''0123456789'' ! d"

fun str_nat :: "nat \<Rightarrow> string" where
  "str_nat n = (if n < 10 then [digit_char n] else str_nat (n div 10) @ [digit_char (n mod 10)])"

declare str_nat.simps [simp del]

section \<open>The API layer (core/serializers.py, core/views.py)\<close>

text \<open>
  \<^verbatim>\<open>LeaseViewSet\<close> uses \<^verbatim>\<open>LeaseCreateUpdateSerializer\<close> for its actions create, update
  and partial\_update. A request carries, for each field it names, a value: a primary key
  for \<^verbatim>\<open>unit\<close>, \<^verbatim>\<open>tenant\<close> and \<^verbatim>\<open>landlord\<close>. The dictionary \<^verbatim>\<open>data\<close> that the
  framework hands to \<^verbatim>\<open>validate\<close> holds, for each key present in the request, the value
  after field-level validation: for the three relations the object found under the
  submitted primary key, here the key together with the row. A key that is absent is
  \<open>None\<close>. The requests are those of an authenticated user (\<^verbatim>\<open>IsAuthenticated\<close>), whose
  values have the types of their fields; the filters of the list action play no part in a
  write.
\<close>

record lease_request =
  q_unit :: "nat option"
  q_tenant :: "nat option"
  q_landlord :: "nat option"
  q_start_date :: "date option"
  q_duration :: "int option"
  q_rent_amount :: "int option"
  q_payment_frequency :: "PaymentFrequency option"

record lease_data =
  d_unit :: "(nat \<times> Unit) option"
  d_tenant :: "(nat \<times> Contact) option"
  d_landlord :: "(nat \<times> Contact) option"
  d_start_date :: "date option"
  d_duration :: "int option"
  d_rent_amount :: "int option"
  d_payment_frequency :: "PaymentFrequency option"

definition occupied_msg :: string where
  "occupied_msg = ''This unit is already occupied and cannot be leased.''"

definition not_tenant_msg :: string where
  "not_tenant_msg = ''Contact must be of type Tenant.''"

definition not_landlord_msg :: string where
  "not_landlord_msg = ''Contact must be of type Landlord.''"

definition not_owner_msg :: string where
  "not_owner_msg = ''Landlord must be the owner of the unit.''"

text \<open>
  \<^verbatim>\<open>LeaseCreateUpdateSerializer.validate\<close> (serializers.py, lines 72 to 100);
  \<open>instance\<close> is \<^verbatim>\<open>self.instance\<close>: \<open>None\<close> on a create, the Lease being changed on
  an update.
  \<^verbatim>\<open>
    if self.instance is None and 'unit' in data:
        unit = data['unit']
        if unit.status == Unit.UnitStatus.OCCUPIED:
            raise serializers.ValidationError({'unit': 'This unit is already occupied ...'})
    if 'tenant' in data and data['tenant'].contact_type != Contact.ContactType.TENANT:
        raise serializers.ValidationError({'tenant': 'Contact must be of type Tenant.'})
    if 'landlord' in data and data['landlord'].contact_type != Contact.ContactType.LANDLORD:
        raise serializers.ValidationError({'landlord': 'Contact must be of type Landlord.'})
    if ('landlord' in data and 'unit' in data and
            data['landlord'] != data['unit'].owner):
        raise serializers.ValidationError({'landlord': 'Landlord must be the owner of the unit.'})
    return data
  \<close>
\<close>

definition validate :: "store \<Rightarrow> (nat \<times> Lease) option \<Rightarrow> lease_data \<Rightarrow> error + lease_data" where
  "validate s instance data =
     (if instance = None \<and> (case d_unit data of None \<Rightarrow> False | Some (_, unit) \<Rightarrow> status unit = OCCUPIED)
      then Inl (ValidationError [(''unit'', occupied_msg)])
      else if (case d_tenant data of None \<Rightarrow> False | Some (_, tenant) \<Rightarrow> contact_type tenant \<noteq> TENANT)
      then Inl (ValidationError [(''tenant'', not_tenant_msg)])
      else if (case d_landlord data of None \<Rightarrow> False | Some (_, landlord) \<Rightarrow> contact_type landlord \<noteq> LANDLORD)
      then Inl (ValidationError [(''landlord'', not_landlord_msg)])
      else
        (case (d_landlord data, d_unit data) of
           (Some (lid, _), Some (_, unit)) \<Rightarrow>
             (case map_of (contacts s) (owner_id unit) of
                None \<Rightarrow> Inl DoesNotExist
              | Some owner \<Rightarrow>
                  if lid \<noteq> owner_id unit then Inl (ValidationError [(''landlord'', not_owner_msg)])
                  else Inr data)
         | _ \<Rightarrow> Inr data))"

text \<open>
  Field-level validation, which the framework runs before \<^verbatim>\<open>validate\<close>
  (\<^verbatim>\<open>Serializer.to_internal_value\<close>). The serializer is a \<^verbatim>\<open>ModelSerializer\<close>: its fields
  and their validators are derived from the declarations of \<^verbatim>\<open>Lease\<close> (models.py, lines
  97 to 129).
  \<^item> A field without default that the request leaves out is an error, unless the update
    is partial.
  \<^item> \<^verbatim>\<open>unit\<close>, \<^verbatim>\<open>tenant\<close>, \<^verbatim>\<open>landlord\<close>: the key is looked up in the rows the relation
    may point to, which \<^verbatim>\<open>limit_choices_to\<close> restricts to the TENANT contacts for
    \<^verbatim>\<open>tenant\<close> and to the LANDLORD contacts for \<^verbatim>\<open>landlord\<close>; a key that is not found
    there is an error.
  \<^item> \<^verbatim>\<open>start_date\<close> is a date.
  \<^item> \<^verbatim>\<open>duration\<close> is at least 1 (\<^verbatim>\<open>MinValueValidator(1)\<close>) and at most the largest
    integer the backend announces, if it announces a range.
  \<^item> \<^verbatim>\<open>rent_amount\<close>, written with two decimals, has at most 10 digits
    (\<^verbatim>\<open>max_digits=10, decimal_places=2\<close>) and is at least 0 (\<^verbatim>\<open>MinValueValidator(0)\<close>).
  \<^item> \<^verbatim>\<open>payment_frequency\<close> has a default and is one of the four choices.

  The errors of all fields are collected, in the order of \<^verbatim>\<open>Meta.fields\<close>, into one
  \<open>ValidationError\<close> keyed by the names of the fields.
\<close>

definition required_msg :: string where
  "required_msg = ''This field is required.''"

definition does_not_exist_msg :: "nat \<Rightarrow> string" where
  "does_not_exist_msg pk =
     ''Invalid pk '' @ [CHR 0x22] @ str_nat pk @ [CHR 0x22] @ '' - object does not exist.''"

definition date_msg :: string where
  "date_msg = ''Date has wrong format. Use one of these formats instead: YYYY-MM-DD.''"

definition min_value_msg :: "nat \<Rightarrow> string" where
  "min_value_msg n = ''Ensure this value is greater than or equal to '' @ str_nat n @ ''.''"

definition max_value_msg :: "int \<Rightarrow> string" where
  "max_value_msg n =
     ''Ensure this value is less than or equal to '' @
     (if n < 0 then ''-'' else []) @ str_nat (nat \<bar>n\<bar>) @ ''.''"

definition max_digits_msg :: string where
  "max_digits_msg = ''Ensure that there are no more than 10 digits in total.''"

definition field_fk ::
  "bool \<Rightarrow> string \<Rightarrow> (nat \<times> 'a) list \<Rightarrow> ('a \<Rightarrow> bool) \<Rightarrow> nat option
     \<Rightarrow> (string \<times> string) list \<times> (nat \<times> 'a) option" where
  "field_fk partial key rows choice v =
     (case v of
        None \<Rightarrow> (if partial then [] else [(key, required_msg)], None)
      | Some pk \<Rightarrow>
          (case map_of rows pk of
             None \<Rightarrow> ([(key, does_not_exist_msg pk)], None)
           | Some r \<Rightarrow>
               if choice r then ([], Some (pk, r))
               else ([(key, does_not_exist_msg pk)], None)))"

definition field_value ::
  "bool \<Rightarrow> string \<Rightarrow> ('a \<Rightarrow> string option) \<Rightarrow> 'a option
     \<Rightarrow> (string \<times> string) list \<times> 'a option" where
  "field_value partial key check v =
     (case v of
        None \<Rightarrow> (if partial then [] else [(key, required_msg)], None)
      | Some x \<Rightarrow>
          (case check x of
             None \<Rightarrow> ([], Some x)
           | Some msg \<Rightarrow> ([(key, msg)], None)))"

definition check_start_date :: "date \<Rightarrow> string option" where
  "check_start_date d = (if valid_date d then None else Some date_msg)"

definition check_duration :: "backend \<Rightarrow> int \<Rightarrow> string option" where
  "check_duration b n =
     (if (case integer_field_range b of None \<Rightarrow> False | Some (lo, hi) \<Rightarrow> hi < n)
      then Some (max_value_msg (case integer_field_range b of None \<Rightarrow> 0 | Some (lo, hi) \<Rightarrow> hi))
      else if n < 1 then Some (min_value_msg 1)
      else None)"

definition check_rent_amount :: "int \<Rightarrow> string option" where
  "check_rent_amount r =
     (if 10 ^ 10 \<le> \<bar>r\<bar> then Some max_digits_msg
      else if r < 0 then Some (min_value_msg 0)
      else None)"

definition to_internal_value :: "store \<Rightarrow> bool \<Rightarrow> lease_request \<Rightarrow> error + lease_data" where
  "to_internal_value s partial req =
     (let (e1, u) = field_fk partial ''unit'' (units s) (\<lambda>_. True) (q_unit req);
          (e2, t) = field_fk partial ''tenant'' (contacts s)
                      (\<lambda>c. contact_type c = TENANT) (q_tenant req);
          (e3, l) = field_fk partial ''landlord'' (contacts s)
                      (\<lambda>c. contact_type c = LANDLORD) (q_landlord req);
          (e4, sd) = field_value partial ''start_date'' check_start_date (q_start_date req);
          (e5, du) = field_value partial ''duration'' (check_duration (backend s))
                       (q_duration req);
          (e6, ra) = field_value partial ''rent_amount'' check_rent_amount (q_rent_amount req);
          errors = e1 @ e2 @ e3 @ e4 @ e5 @ e6
      in if errors \<noteq> [] then Inl (ValidationError errors)
         else Inr \<lparr>d_unit = u, d_tenant = t, d_landlord = l, d_start_date = sd,
                   d_duration = du, d_rent_amount = ra,
                   d_payment_frequency = q_payment_frequency req\<rparr>)"

text \<open>
  \<^verbatim>\<open>Serializer.run_validation\<close>: the fields first, then \<^verbatim>\<open>validate\<close> on their values.
\<close>

definition run_validation ::
  "store \<Rightarrow> (nat \<times> Lease) option \<Rightarrow> bool \<Rightarrow> lease_request \<Rightarrow> error + lease_data" where
  "run_validation s instance partial req =
     (case to_internal_value s partial req of
        Inl e \<Rightarrow> Inl e
      | Inr data \<Rightarrow> validate s instance data)"

text \<open>
  After validation the framework's \<^verbatim>\<open>ModelSerializer\<close> writes the instance. On a create
  it builds the Lease from the validated data (\<^verbatim>\<open>Lease.objects.create\<close>) and saves it;
  validation has made sure that the fields without default are there (a Lease without
  them would violate the \<^verbatim>\<open>NOT NULL\<close> of its columns). On an update the view first loads
  the Lease of the given key, and raises \<open>Http404\<close> when there is none; after validation
  each key present is assigned to the instance, which is saved. The update is partial for
  the action partial\_update, which may leave any field out.
\<close>

definition new_lease :: "lease_data \<Rightarrow> Lease option" where
  "new_lease data =
     (case (d_unit data, d_tenant data, d_landlord data) of
        (Some (uid, _), Some (tid, _), Some (lid, _)) \<Rightarrow>
          (case (d_start_date data, d_duration data, d_rent_amount data) of
             (Some sd, Some du, Some ra) \<Rightarrow>
               Some \<lparr>unit_id = uid, tenant_id = tid, landlord_id = lid, start_date = sd,
                     duration = du, rent_amount = ra,
                     payment_frequency =
                       (case d_payment_frequency data of None \<Rightarrow> MONTHLY | Some f \<Rightarrow> f)\<rparr>
           | _ \<Rightarrow> None)
      | _ \<Rightarrow> None)"

definition set_attrs :: "Lease \<Rightarrow> lease_data \<Rightarrow> Lease" where
  "set_attrs inst data =
     \<lparr>unit_id = (case d_unit data of None \<Rightarrow> unit_id inst | Some (uid, _) \<Rightarrow> uid),
      tenant_id = (case d_tenant data of None \<Rightarrow> tenant_id inst | Some (tid, _) \<Rightarrow> tid),
      landlord_id = (case d_landlord data of None \<Rightarrow> landlord_id inst | Some (lid, _) \<Rightarrow> lid),
      start_date = (case d_start_date data of None \<Rightarrow> start_date inst | Some sd \<Rightarrow> sd),
      duration = (case d_duration data of None \<Rightarrow> duration inst | Some du \<Rightarrow> du),
      rent_amount = (case d_rent_amount data of None \<Rightarrow> rent_amount inst | Some ra \<Rightarrow> ra),
      payment_frequency =
        (case d_payment_frequency data of None \<Rightarrow> payment_frequency inst | Some f \<Rightarrow> f)\<rparr>"

definition LeaseViewSet_create :: "store \<Rightarrow> lease_request \<Rightarrow> (error + nat) \<times> store" where
  "LeaseViewSet_create s req =
     (case run_validation s None False req of
        Inl e \<Rightarrow> (Inl e, s)
      | Inr data \<Rightarrow>
          (case new_lease data of
             None \<Rightarrow> (Inl IntegrityError, s)
           | Some l \<Rightarrow> Lease_save s None l))"

definition LeaseViewSet_update ::
  "store \<Rightarrow> nat \<Rightarrow> bool \<Rightarrow> lease_request \<Rightarrow> (error + nat) \<times> store" where
  "LeaseViewSet_update s pk partial req =
     (case map_of (leases s) pk of
        None \<Rightarrow> (Inl Http404, s)
      | Some inst \<Rightarrow>
          (case run_validation s (Some (pk, inst)) partial req of
             Inl e \<Rightarrow> (Inl e, s)
           | Inr data \<Rightarrow> Lease_save s (Some pk) (set_attrs inst data)))"

text \<open>
  The data of a request read from the store \<open>s\<close>: every object it holds is the row of
  \<open>s\<close> under its key.
\<close>

definition loaded_from :: "store \<Rightarrow> lease_data \<Rightarrow> bool" where
  "loaded_from s data \<longleftrightarrow>
     (case d_unit data of None \<Rightarrow> True | Some (i, u) \<Rightarrow> map_of (units s) i = Some u) \<and>
     (case d_tenant data of None \<Rightarrow> True | Some (i, c) \<Rightarrow> map_of (contacts s) i = Some c) \<and>
     (case d_landlord data of None \<Rightarrow> True | Some (i, c) \<Rightarrow> map_of (contacts s) i = Some c)"

section \<open>Store invariants and the test data\<close>

text \<open>Invariant 1 of the data model: the owner of every Unit is a LANDLORD contact.\<close>

definition owners_are_landlords :: "store \<Rightarrow> bool" where
  "owners_are_landlords s \<longleftrightarrow>
     list_all (\<lambda>(i, u). case map_of (contacts s) (owner_id u) of
                          None \<Rightarrow> False | Some c \<Rightarrow> contact_type c = LANDLORD) (units s)"

text \<open>The \<^verbatim>\<open>unique=True\<close> of \<^verbatim>\<open>unit_number\<close>, as the database keeps it.\<close>

definition unique_unit_numbers :: "store \<Rightarrow> bool" where
  "unique_unit_numbers s \<longleftrightarrow> distinct (map (unit_number \<circ> snd) (units s))"

text \<open>
  The records of \<^verbatim>\<open>management/commands/load_test_data.py\<close>: a landlord, a tenant, the
  vacant unit A1 of the landlord, and the lease the command creates on it. \<open>mary\<close> is a
  second landlord, who owns nothing. The backend of the examples announces no integer
  range and stores a Lease row whose duration is an integer of 64 bits and whose rent has
  at most ten digits.
\<close>

definition test_backend :: backend where
  "test_backend =
     \<lparr>integer_field_range = None,
      stores_lease = (\<lambda>l. - (2 ^ 63) \<le> duration l \<and> duration l < 2 ^ 63 \<and>
                           \<bar>rent_amount l\<bar> < 10 ^ 10)\<rparr>"

definition john :: Contact where
  "john = \<lparr>name = ''John Doe'', contact_type = LANDLORD, email = ''john.doe@example.com'',
           phone = ''555-123-4567'', address = ''123 Landlord St, Property City, PC 12345''\<rparr>"

definition jane :: Contact where
  "jane = \<lparr>name = ''Jane Smith'', contact_type = TENANT, email = ''jane.smith@example.com'',
           phone = ''555-765-4321'', address = ''456 Tenant Ave, Renter City, RC 54321''\<rparr>"

definition mary :: Contact where
  "mary = \<lparr>name = ''Mary Major'', contact_type = LANDLORD, email = [], phone = [], address = []\<rparr>"

definition unit_A1 :: Unit where
  "unit_A1 = \<lparr>unit_number = ''A1'', type = APARTMENT,
              location = ''789 Property Blvd, Rental City, RC 67890'', val = 25000000,
              status = VACANT, owner_id = 1\<rparr>"

definition test_lease :: Lease where
  "test_lease = \<lparr>unit_id = 1, tenant_id = 2, landlord_id = 1,
                 start_date = \<lparr>year = 2025, month = 1, day = 1\<rparr>, duration = 12,
                 rent_amount = 150000, payment_frequency = MONTHLY\<rparr>"

definition test_store :: store where
  "test_store = \<lparr>contacts = [(1, john), (2, jane), (3, mary)], units = [(1, unit_A1)], leases = [],
                 backend = test_backend\<rparr>"

definition leased_store :: store where
  "leased_store = \<lparr>contacts = [(1, john), (2, jane), (3, mary)],
                   units = [(1, unit_A1\<lparr>status := OCCUPIED\<rparr>)], leases = [(1, test_lease)],
                   backend = test_backend\<rparr>"

text \<open>
  The three checks of \<^verbatim>\<open>Lease.save\<close>, as a predicate on the store and the Lease: the
  tenant is a TENANT contact, the landlord is a LANDLORD contact, and the landlord is the
  owner of the referenced Unit.
\<close>

definition lease_checks_pass :: "store \<Rightarrow> Lease \<Rightarrow> bool" where
  "lease_checks_pass s l \<longleftrightarrow>
     (case map_of (contacts s) (tenant_id l) of None \<Rightarrow> False | Some t \<Rightarrow> contact_type t = TENANT) \<and>
     (case map_of (contacts s) (landlord_id l) of None \<Rightarrow> False | Some c \<Rightarrow> contact_type c = LANDLORD) \<and>
     (case map_of (units s) (unit_id l) of None \<Rightarrow> False | Some u \<Rightarrow> landlord_id l = owner_id u)"

text \<open>Further test records: a second, occupied unit of the same landlord, and request data.\<close>

definition unit_B2 :: Unit where
  "unit_B2 = \<lparr>unit_number = ''B2'', type = HOUSE, location = ''12 Side St'', val = 9000000,
              status = OCCUPIED, owner_id = 1\<rparr>"

definition two_unit_store :: store where
  "two_unit_store = \<lparr>contacts = [(1, john), (2, jane), (3, mary)],
                     units = [(1, unit_A1\<lparr>status := OCCUPIED\<rparr>), (2, unit_B2)],
                     leases = [(1, test_lease)], backend = test_backend\<rparr>"

definition no_request :: lease_request where
  "no_request = \<lparr>q_unit = None, q_tenant = None, q_landlord = None, q_start_date = None,
                 q_duration = None, q_rent_amount = None, q_payment_frequency = None\<rparr>"

definition test_request :: lease_request where
  "test_request = \<lparr>q_unit = Some 1, q_tenant = Some 2, q_landlord = Some 1,
                   q_start_date = Some \<lparr>year = 2025, month = 1, day = 1\<rparr>,
                   q_duration = Some 12, q_rent_amount = Some 150000,
                   q_payment_frequency = Some MONTHLY\<rparr>"

definition no_data :: lease_data where
  "no_data = \<lparr>d_unit = None, d_tenant = None, d_landlord = None, d_start_date = None,
              d_duration = None, d_rent_amount = None, d_payment_frequency = None\<rparr>"

definition test_data :: lease_data where
  "test_data = \<lparr>d_unit = Some (1, unit_A1\<lparr>status := OCCUPIED\<rparr>), d_tenant = Some (2, jane),
                d_landlord = Some (1, john), d_start_date = Some \<lparr>year = 2025, month = 1, day = 1\<rparr>,
                d_duration = Some 12, d_rent_amount = Some 150000,
                d_payment_frequency = Some MONTHLY\<rparr>"

section \<open>The Aggregation Engine (core/views.py)\<close>

subsection \<open>Python's float arithmetic and formatting\<close>

text \<open>
  The occupancy rate is computed in Python floats (IEEE 754 binary64) and printed with the
  format \<^verbatim>\<open>.2f\<close>. A finite float is modelled by the rational number it holds. An
  operation on floats is the exact operation followed by rounding to the nearest float,
  ties to the even significand: the value is scaled to a significand of 53 bits (fewer
  below \<open>2\<^sup>-\<^sup>1\<^sup>0\<^sup>2\<^sup>2\<close>, where the exponent stays at its minimum) and the significand
  is rounded to an integer. Overflow, at magnitudes of \<open>2\<^sup>1\<^sup>0\<^sup>2\<^sup>4\<close>, is not modelled:
  the values here lie between 0 and 100.

  \<open>bit_length\<close> is \<^verbatim>\<open>int.bit_length\<close>; \<open>float_exponent x\<close> is the exponent \<open>e\<close> with
  \<open>2\<^sup>e \<le> x < 2\<^sup>e\<^sup>+\<^sup>1\<close> of a positive \<open>x\<close>.
\<close>

fun bit_length :: "nat \<Rightarrow> nat" where
  "bit_length n = (if n = 0 then 0 else Suc (bit_length (n div 2)))"

declare bit_length.simps [simp del]

definition round_half_even :: "rat \<Rightarrow> int" where
  "round_half_even x =
     (let f = \<lfloor>x\<rfloor>; r = x - of_int f
      in if r < 1 / 2 then f else if 1 / 2 < r then f + 1 else if even f then f else f + 1)"

definition float_exponent :: "rat \<Rightarrow> int" where
  "float_exponent x =
     (if 1 \<le> x then int (bit_length (nat \<lfloor>x\<rfloor>)) - 1
      else - int (bit_length (nat (\<lceil>1 / x\<rceil> - 1))))"

definition round_double :: "rat \<Rightarrow> rat" where
  "round_double x =
     (if x = 0 then 0
      else (let e = max (float_exponent \<bar>x\<bar>) (- 1022);
                u = 2 powi (e - 52)
            in sgn x * of_int (round_half_even (\<bar>x\<bar> / u)) * u))"

text \<open>
  \<^verbatim>\<open>a / b\<close> on two \<^verbatim>\<open>int\<close>s is the correctly rounded quotient, and raises
  \<^verbatim>\<open>ZeroDivisionError\<close> for a zero divisor; \<^verbatim>\<open>x * y\<close> on floats is the rounded product.
\<close>

definition int_truediv :: "int \<Rightarrow> int \<Rightarrow> error + rat" where
  "int_truediv a b = (if b = 0 then Inl ZeroDivisionError else Inr (round_double (of_int a / of_int b)))"

definition float_mul :: "rat \<Rightarrow> rat \<Rightarrow> rat" where
  "float_mul x y = round_double (x * y)"

text \<open>
  \<^verbatim>\<open>format(x, '.2f')\<close>: the exact value of the float rounded to two decimals, ties to
  even, printed as the integer part, a point and two digits. An \<^verbatim>\<open>int\<close> is converted to
  float first, which is exact for 0.
\<close>

definition format_hundredths :: "int \<Rightarrow> string" where
  "format_hundredths h =
     str_nat (nat (h div 100)) @ ''.'' @ [digit_char (nat (h mod 100 div 10)), digit_char (nat (h mod 10))]"

definition format_2f :: "rat \<Rightarrow> string" where
  "format_2f x = (if x < 0 then ''-'' else []) @ format_hundredths (round_half_even (\<bar>x\<bar> * 100))"

subsection \<open>DashboardView.list\<close>

text \<open>
  The queries of the unit status summary (views.py, lines 139 to 148):
  \<^verbatim>\<open>
    unit_counts = Unit.objects.values('status').annotate(count=Count('id'))
    unit_status = {unit['status']: unit['count'] for unit in unit_counts}
    total_units = Unit.objects.count()
    vacant_units = unit_status.get(Unit.UnitStatus.VACANT, 0)
    occupied_units = unit_status.get(Unit.UnitStatus.OCCUPIED, 0)
    maintenance_units = unit_status.get(Unit.UnitStatus.MAINTENANCE, 0)
  \<close>
  The first query groups the units by status: one row for each status that occurs, with
  the number of units that have it.
\<close>

definition unit_counts :: "store \<Rightarrow> (UnitStatus \<times> nat) list" where
  "unit_counts s =
     map (\<lambda>st. (st, length (filter (\<lambda>(i, u). status u = st) (units s))))
         (remdups (map (\<lambda>(i, u). status u) (units s)))"

definition dict_get :: "('k \<times> nat) list \<Rightarrow> 'k \<Rightarrow> nat \<Rightarrow> nat" where
  "dict_get d k dflt = (case map_of d k of None \<Rightarrow> dflt | Some c \<Rightarrow> c)"

text \<open>
  The expression of the occupancy rate in the response (line 186):
  \<^verbatim>\<open>
    f"{(occupied_units / total_units * 100) if total_units else 0:.2f}%"
  \<close>
  The format \<^verbatim>\<open>.2f\<close> applies to the whole conditional expression, the \<^verbatim>\<open>0\<close> of the
  \<^verbatim>\<open>else\<close> included.
\<close>

definition occupancy_rate_str :: "nat \<Rightarrow> nat \<Rightarrow> error + string" where
  "occupancy_rate_str occupied_units total_units =
     (case (if total_units \<noteq> 0
            then (case int_truediv (int occupied_units) (int total_units) of
                    Inl e \<Rightarrow> Inl e
                  | Inr q \<Rightarrow> Inr (float_mul q 100))
            else Inr 0) of
        Inl e \<Rightarrow> Inl e
      | Inr v \<Rightarrow> Inr (format_2f v @ ''%''))"

text \<open>
  The landlord summary (views.py, lines 150 to 155):
  \<^verbatim>\<open>
    landlords = Contact.objects.filter(
        type=Contact.ContactType.LANDLORD
    ).annotate(
        units_count=Count('owned_units')
    ).values('id', 'name', 'units_count')
  \<close>
  \<^verbatim>\<open>filter\<close> resolves its keyword against the fields of the model when it is called,
  and raises \<open>FieldError\<close> for a keyword that names none. The fields of \<^verbatim>\<open>Contact\<close>
  (models.py, lines 13 to 23) that hold text are \<^verbatim>\<open>name\<close>, \<^verbatim>\<open>contact_type\<close>,
  \<^verbatim>\<open>email\<close>, \<^verbatim>\<open>phone\<close> and \<^verbatim>\<open>address\<close>; its other names are the key (\<^verbatim>\<open>id\<close>,
  \<^verbatim>\<open>pk\<close>), the two timestamps and the reverse relations \<^verbatim>\<open>owned_units\<close>,
  \<^verbatim>\<open>leases_as_tenant\<close> and \<^verbatim>\<open>leases_as_landlord\<close>, which are compared with values of
  other types and are not modelled as filter keywords. A \<^verbatim>\<open>TextChoices\<close> member
  is stored and compared as its string value.
\<close>

definition ContactType_value :: "ContactType \<Rightarrow> string" where
  "ContactType_value t = (case t of LANDLORD \<Rightarrow> ''LANDLORD'' | TENANT \<Rightarrow> ''TENANT'')"

definition Contact_text_field :: "string \<Rightarrow> (Contact \<Rightarrow> string) option" where
  "Contact_text_field kw =
     (if kw = ''name'' then Some name
      else if kw = ''contact_type'' then Some (\<lambda>c. ContactType_value (contact_type c))
      else if kw = ''email'' then Some email
      else if kw = ''phone'' then Some phone
      else if kw = ''address'' then Some address
      else None)"

definition Contact_objects_filter :: "store \<Rightarrow> string \<Rightarrow> string \<Rightarrow> error + (nat \<times> Contact) list" where
  "Contact_objects_filter s kw v =
     (case Contact_text_field kw of
        None \<Rightarrow> Inl (FieldError kw)
      | Some field \<Rightarrow> Inr (filter (\<lambda>(i, c). field c = v) (contacts s)))"

definition annotate_units_count :: "store \<Rightarrow> (nat \<times> Contact) list \<Rightarrow> (nat \<times> string \<times> nat) list" where
  "annotate_units_count s cs =
     map (\<lambda>(i, c). (i, name c, length (filter (\<lambda>(j, u). owner_id u = i) (units s)))) cs"

text \<open>
  \<^verbatim>\<open>DashboardView.list\<close> (views.py, lines 131 to 196), in the order of the source: the
  counts of the units, the landlord query, then the dictionary of the response, in which
  the occupancy rate is formatted:
  \<^verbatim>\<open>
    return Response({
        'units_summary': {
            'total': total_units, 'vacant': vacant_units, 'occupied': occupied_units,
            'maintenance': maintenance_units,
            'occupancy_rate': f"{...:.2f}%"
        },
        'landlords_summary': list(landlords),
        ...
    })
  \<close>
  The rent summary and the latest lease, computed after the landlord query, are not part
  of this model.
\<close>

record units_summary =
  us_total :: nat
  us_vacant :: nat
  us_occupied :: nat
  us_maintenance :: nat
  us_occupancy_rate :: string

record dashboard =
  r_units_summary :: units_summary
  r_landlords_summary :: "(nat \<times> string \<times> nat) list"

definition DashboardView_list :: "store \<Rightarrow> error + dashboard" where
  "DashboardView_list s =
     (let unit_status = unit_counts s;
          total_units = length (units s);
          vacant_units = dict_get unit_status VACANT 0;
          occupied_units = dict_get unit_status OCCUPIED 0;
          maintenance_units = dict_get unit_status MAINTENANCE 0
      in case Contact_objects_filter s ''type'' (ContactType_value LANDLORD) of
           Inl e \<Rightarrow> Inl e
         | Inr landlords \<Rightarrow>
             (case occupancy_rate_str occupied_units total_units of
                Inl e \<Rightarrow> Inl e
              | Inr rate \<Rightarrow>
                  Inr \<lparr>r_units_summary =
                         \<lparr>us_total = total_units, us_vacant = vacant_units,
                          us_occupied = occupied_units, us_maintenance = maintenance_units,
                          us_occupancy_rate = rate\<rparr>,
                       r_landlords_summary = annotate_units_count s landlords\<rparr>))"

text \<open>
  The number of units of a status, and the landlords with the number of units each owns, as
  the specification describes the two summaries.
\<close>

definition count_status :: "store \<Rightarrow> UnitStatus \<Rightarrow> nat" where
  "count_status s st = length (filter (\<lambda>(i, u). status u = st) (units s))"

definition landlord_summary_spec :: "store \<Rightarrow> (nat \<times> string \<times> nat) list" where
  "landlord_summary_spec s =
     map (\<lambda>(i, c). (i, name c, length (filter (\<lambda>(j, u). owner_id u = i) (units s))))
         (filter (\<lambda>(i, c). contact_type c = LANDLORD) (contacts s))"

text \<open>Stores for the examples: no rows at all, and three units of which two are occupied.\<close>

definition empty_store :: store where
  "empty_store = \<lparr>contacts = [], units = [], leases = [], backend = test_backend\<rparr>"

definition unit_C3 :: Unit where
  "unit_C3 = \<lparr>unit_number = ''C3'', type = CONDO, location = ''3 Hill Rd'', val = 12000000,
              status = VACANT, owner_id = 3\<rparr>"

definition three_unit_store :: store where
  "three_unit_store = \<lparr>contacts = [(1, john), (2, jane), (3, mary)],
                       units = [(1, unit_A1\<lparr>status := OCCUPIED\<rparr>), (2, unit_B2), (3, unit_C3)],
                       leases = [(1, test_lease)], backend = test_backend\<rparr>"

section \<open>Properties of the write path\<close>

subsection \<open>Lemmas on the row writes\<close>

lemma Unit_super_save_fail: "Unit_super_save s pk u = (Inl e, s') \<Longrightarrow> s' = s"
  by (auto simp: Unit_super_save_def Let_def split: if_splits)

lemma Unit_save_fail: "Unit_save s pk u = (Inl e, s') \<Longrightarrow> s' = s"
  by (auto simp: Unit_save_def split: option.splits if_splits dest: Unit_super_save_fail)

lemma Lease_save_checks_fail:
  "\<not> lease_checks_pass s l \<Longrightarrow> \<exists>e. Lease_save s pk l = (Inl e, s)"
  by (auto simp: lease_checks_pass_def Lease_save_def split: option.splits)

lemma list_all_update:
  "list_all P al \<Longrightarrow> P (k, v) \<Longrightarrow> list_all P (AList.update k v al)"
  by (induction al) auto

lemma Unit_super_save_ok:
  "Unit_super_save s pk u = (Inr i, s') \<Longrightarrow>
     s' = s\<lparr>units := AList.update i u (units s)\<rparr> \<and> i = pk_of pk (units s)"
  by (auto simp: Unit_super_save_def Let_def split: if_splits)

lemma Unit_save_ok:
  "Unit_save s pk u = (Inr i, s') \<Longrightarrow>
     s' = s\<lparr>units := AList.update i u (units s)\<rparr> \<and> i = pk_of pk (units s) \<and>
     (\<exists>c. map_of (contacts s) (owner_id u) = Some c \<and> contact_type c = LANDLORD)"
  by (auto simp: Unit_save_def split: option.splits if_splits dest: Unit_super_save_ok)

lemma unique_no_clash:
  assumes "unique_unit_numbers s" "map_of (units s) i = Some u"
  shows "\<not> list_ex (\<lambda>(j, v). j \<noteq> i \<and> unit_number v = unit_number (u\<lparr>status := st\<rparr>)) (units s)"
proof
  assume "list_ex (\<lambda>(j, v). j \<noteq> i \<and> unit_number v = unit_number (u\<lparr>status := st\<rparr>)) (units s)"
  then obtain j v where jv: "(j, v) \<in> set (units s)" "j \<noteq> i" "unit_number v = unit_number u"
    by (auto simp: list_ex_iff)
  have iu: "(i, u) \<in> set (units s)" using assms(2) by (rule map_of_SomeD)
  have "inj_on (unit_number \<circ> snd) (set (units s))"
    using assms(1) by (simp add: unique_unit_numbers_def distinct_map)
  from inj_onD[OF this _ jv(1) iu] jv show False by simp
qed

lemma le_fold_max: "x \<in> set xs \<Longrightarrow> x \<le> fold max xs (a::nat)"
proof (induction xs arbitrary: a)
  case Nil then show ?case by simp
next
  case (Cons y ys)
  have mono: "b \<le> fold max zs (b::nat)" for b zs
    by (induction zs arbitrary: b) (auto intro: order_trans[OF max.cobounded2])
  from Cons show ?case
    by (auto intro: order_trans[OF max.cobounded1 mono])
qed

lemma fresh_pk_new: "fresh_pk rows \<notin> fst ` set rows"
proof
  assume "fresh_pk rows \<in> fst ` set rows"
  then have "fresh_pk rows \<in> set (map fst rows)" by simp
  from le_fold_max[OF this, of 0] show False by (simp add: fresh_pk_def)
qed

lemma update_new: "k \<notin> fst ` set al \<Longrightarrow> AList.update k v al = al @ [(k, v)]"
  by (induction al) auto

lemma update_fresh_pk: "AList.update (fresh_pk rows) v rows = rows @ [(fresh_pk rows, v)]"
  by (rule update_new[OF fresh_pk_new])

lemma Lease_save_ok:
  assumes "Lease_save s pk l = (Inr i, s')"
  shows "\<exists>u. map_of (units s) (unit_id l) = Some u \<and> i = pk_of pk (leases s) \<and>
           s' = (if status u \<noteq> OCCUPIED
                 then s\<lparr>units := AList.update (unit_id l) (u\<lparr>status := OCCUPIED\<rparr>) (units s),
                         leases := AList.update i l (leases s)\<rparr>
                 else s\<lparr>leases := AList.update i l (leases s)\<rparr>)"
  using assms
  by (auto simp: Lease_save_def Lease_super_save_def Let_def pk_of_def
           split: option.splits if_splits prod.splits sum.splits dest!: Unit_save_ok)

lemma Lease_save_pass:
  assumes "lease_checks_pass s l" and "map_of (units s) (unit_id l) = Some u"
    and "status u = OCCUPIED \<or> unique_unit_numbers s"
    and "stores_lease (backend s) l"
  shows "Lease_save s pk l =
           (Inr (pk_of pk (leases s)),
            if status u \<noteq> OCCUPIED
            then s\<lparr>units := AList.update (unit_id l) (u\<lparr>status := OCCUPIED\<rparr>) (units s),
                    leases := AList.update (pk_of pk (leases s)) l (leases s)\<rparr>
            else s\<lparr>leases := AList.update (pk_of pk (leases s)) l (leases s)\<rparr>)"
proof (cases "status u = OCCUPIED")
  case True
  with assms(1,2,4) show ?thesis
    by (auto simp: lease_checks_pass_def Lease_save_def Lease_super_save_def Let_def
             split: option.splits)
next
  case False
  with assms(3) have "unique_unit_numbers s" by simp
  from unique_no_clash[OF this assms(2), of OCCUPIED] False assms(1,2,4) show ?thesis
    by (auto simp: lease_checks_pass_def Lease_save_def Lease_super_save_def Let_def
                   Unit_save_def Unit_super_save_def pk_of_def
             split: option.splits)
qed

text \<open>
  The two row writes of \<^verbatim>\<open>Lease.save\<close> are not one transaction: when the three checks
  pass on a unit that is not OCCUPIED and the backend refuses the row of the Lease, the call
  raises after the unit's row was written.
\<close>

lemma Lease_save_row_write_fails:
  assumes "lease_checks_pass s l" and "map_of (units s) (unit_id l) = Some u"
    and "status u \<noteq> OCCUPIED" and "unique_unit_numbers s"
    and "\<not> stores_lease (backend s) l"
  shows "Lease_save s pk l =
           (Inl DatabaseError,
            s\<lparr>units := AList.update (unit_id l) (u\<lparr>status := OCCUPIED\<rparr>) (units s)\<rparr>)"
  using unique_no_clash[OF assms(4) assms(2), of OCCUPIED] assms(1,2,3,5)
  by (auto simp: lease_checks_pass_def Lease_save_def Lease_super_save_def Let_def
                 Unit_save_def Unit_super_save_def pk_of_def
           split: option.splits)

lemma Lease_save_units:
  assumes "Lease_save s pk l = (r, s')"
  shows "units s' = units s \<or>
         (\<exists>u. map_of (units s) (unit_id l) = Some u \<and>
              units s' = AList.update (unit_id l) (u\<lparr>status := OCCUPIED\<rparr>) (units s))"
  using assms
  by (auto simp: Lease_save_def Lease_super_save_def Let_def pk_of_def
           split: option.splits if_splits prod.splits sum.splits
           dest!: Unit_save_ok Unit_save_fail)

lemma Unit_save_no_ValidationError: "Unit_save s pk u \<noteq> (Inl (ValidationError es), s')"
  by (simp add: Unit_save_def Unit_super_save_def Let_def split: option.splits)

lemma Lease_save_no_ValidationError: "fst (Lease_save s pk l) \<noteq> Inl (ValidationError es)"
proof
  assume a: "fst (Lease_save s pk l) = Inl (ValidationError es)"
  then obtain s' where "Lease_save s pk l = (Inl (ValidationError es), s')"
    by (cases "Lease_save s pk l") simp
  then show False
    using Unit_save_no_ValidationError[of s "Some (unit_id l)" _ es s']
    by (auto simp: Lease_save_def Lease_super_save_def Let_def
             split: option.splits if_splits prod.splits sum.splits)
qed

lemma validate_update_no_occupied_error:
  "validate s (Some inst) data = Inl (ValidationError es) \<Longrightarrow> (''unit'', m) \<notin> set es"
  by (auto simp: validate_def split: option.splits prod.splits if_splits)

lemma field_fk_errors:
  "(k, m) \<in> set (fst (field_fk partial key rows choice v)) \<Longrightarrow> m \<noteq> occupied_msg"
  by (auto simp: field_fk_def required_msg_def does_not_exist_msg_def occupied_msg_def
           split: option.splits if_splits)

lemma field_value_errors:
  "(k, m) \<in> set (fst (field_value partial key check v)) \<Longrightarrow> k = key"
  by (auto simp: field_value_def split: option.splits if_splits)

lemma field_fk_value:
  "snd (field_fk partial key rows choice v) = Some (i, r) \<Longrightarrow>
     v = Some i \<and> map_of rows i = Some r \<and> choice r"
  by (auto simp: field_fk_def split: option.splits if_splits)

lemma field_fk_no_error:
  "fst (field_fk partial key rows choice (Some i)) = [] \<Longrightarrow> map_of rows i = Some r \<Longrightarrow>
     snd (field_fk partial key rows choice (Some i)) = Some (i, r)"
  by (auto simp: field_fk_def split: option.splits if_splits)

lemma to_internal_value_no_occupied:
  assumes "to_internal_value s partial req = Inl (ValidationError es)"
  shows "(''unit'', occupied_msg) \<notin> set es"
proof
  assume m: "(''unit'', occupied_msg) \<in> set es"
  from assms have
    "es = fst (field_fk partial ''unit'' (units s) (\<lambda>_. True) (q_unit req)) @
          fst (field_fk partial ''tenant'' (contacts s) (\<lambda>c. contact_type c = TENANT) (q_tenant req)) @
          fst (field_fk partial ''landlord'' (contacts s) (\<lambda>c. contact_type c = LANDLORD)
                 (q_landlord req)) @
          fst (field_value partial ''start_date'' check_start_date (q_start_date req)) @
          fst (field_value partial ''duration'' (check_duration (backend s)) (q_duration req)) @
          fst (field_value partial ''rent_amount'' check_rent_amount (q_rent_amount req))"
    by (simp add: to_internal_value_def Let_def split_beta split: if_splits)
  with m show False
    by (auto dest: field_fk_errors field_value_errors)
qed

lemma to_internal_value_unit:
  assumes "to_internal_value s partial req = Inr data"
    and "q_unit req = Some uid" and "map_of (units s) uid = Some u"
  shows "d_unit data = Some (uid, u)"
proof -
  from assms(1) have
    "fst (field_fk partial ''unit'' (units s) (\<lambda>_. True) (q_unit req)) = []"
    and "d_unit data = snd (field_fk partial ''unit'' (units s) (\<lambda>_. True) (q_unit req))"
    by (auto simp: to_internal_value_def Let_def split_beta split: if_splits)
  with assms(2,3) show ?thesis by (simp add: field_fk_no_error)
qed

lemma to_internal_value_loaded:
  assumes "to_internal_value s partial req = Inr data"
  shows "loaded_from s data"
proof -
  from assms have
    "d_unit data = snd (field_fk partial ''unit'' (units s) (\<lambda>_. True) (q_unit req))"
    "d_tenant data = snd (field_fk partial ''tenant'' (contacts s)
                            (\<lambda>c. contact_type c = TENANT) (q_tenant req))"
    "d_landlord data = snd (field_fk partial ''landlord'' (contacts s)
                              (\<lambda>c. contact_type c = LANDLORD) (q_landlord req))"
    by (auto simp: to_internal_value_def Let_def split_beta split: if_splits)
  then show ?thesis
    by (auto simp: loaded_from_def split: option.splits dest: field_fk_value)
qed

lemma run_validation_update_no_occupied:
  assumes "run_validation s (Some inst) partial req = Inl (ValidationError es)"
  shows "(''unit'', occupied_msg) \<notin> set es"
  using assms to_internal_value_no_occupied[of s partial req es]
        validate_update_no_occupied_error[of s inst _ es occupied_msg]
  by (auto simp: run_validation_def split: sum.splits)

lemma validate_pass:
  assumes "loaded_from s data" and "lease_checks_pass s (set_attrs inst data)"
  shows "validate s (Some (pk, inst)) data = Inr data"
  using assms
  by (auto simp: validate_def loaded_from_def lease_checks_pass_def set_attrs_def
           split: option.splits prod.splits)

subsection \<open>Evaluation on the test data\<close>

lemmas test_defs = test_store_def leased_store_def two_unit_store_def test_lease_def john_def jane_def
  mary_def unit_A1_def unit_B2_def no_data_def test_data_def test_backend_def no_request_def
  test_request_def

lemmas save_defs = Lease_save_def Unit_save_def Unit_super_save_def Lease_super_save_def pk_of_def fresh_pk_def

lemmas api_defs = LeaseViewSet_create_def LeaseViewSet_update_def run_validation_def
  to_internal_value_def field_fk_def field_value_def check_start_date_def check_duration_def
  check_rent_amount_def validate_def new_lease_def set_attrs_def Let_def

text \<open>
  The request of the test data creates the test lease. A request whose duration is 0, or
  whose tenant is the landlord John Doe, is answered with the error of that field, and
  nothing is written. A request whose duration passes the validation of the field and is
  more than the backend stores leaves the unit OCCUPIED without a Lease.
\<close>

lemma create_test_request:
  "LeaseViewSet_create test_store test_request = (Inr 1, leased_store)"
  by (simp add: api_defs save_defs test_defs valid_date_def date_new_def monthrange_ndays_def
                mdays_def)

lemma create_duration_zero:
  "LeaseViewSet_create test_store (test_request\<lparr>q_duration := Some 0\<rparr>) =
     (Inl (ValidationError [(''duration'', min_value_msg 1)]), test_store)"
  by (simp add: api_defs test_defs valid_date_def date_new_def monthrange_ndays_def mdays_def)

lemma create_tenant_not_a_choice:
  "LeaseViewSet_create test_store (test_request\<lparr>q_tenant := Some 1, q_rent_amount := Some (- 1)\<rparr>) =
     (Inl (ValidationError [(''tenant'', does_not_exist_msg 1), (''rent_amount'', min_value_msg 0)]),
      test_store)"
  by (simp add: api_defs test_defs valid_date_def date_new_def monthrange_ndays_def mdays_def)

lemma update_duration_zero:
  "LeaseViewSet_update leased_store 1 True (no_request\<lparr>q_duration := Some 0\<rparr>) =
     (Inl (ValidationError [(''duration'', min_value_msg 1)]), leased_store)"
  by (simp add: api_defs test_defs)

lemma create_request_row_refused:
  "LeaseViewSet_create test_store (test_request\<lparr>q_duration := Some (2 ^ 63)\<rparr>) =
     (Inl DatabaseError, test_store\<lparr>units := [(1, unit_A1\<lparr>status := OCCUPIED\<rparr>)]\<rparr>)"
  by (simp add: api_defs save_defs test_defs valid_date_def date_new_def monthrange_ndays_def
                mdays_def)

lemma create_row_refused:
  "Lease_save test_store None (test_lease\<lparr>duration := 2 ^ 63\<rparr>) =
     (Inl DatabaseError, test_store\<lparr>units := [(1, unit_A1\<lparr>status := OCCUPIED\<rparr>)]\<rparr>)"
  by (simp add: save_defs test_defs)

subsection \<open>Lease writes\<close>

text \<open>
  Claim C1. A Lease write (create or update) that fails one of the three checks of
  \<^verbatim>\<open>Lease.save\<close> (tenant role, landlord role, landlord is the unit's owner) raises and
  leaves the store as it was: the status of the referenced Unit is what it was before and
  no Lease row is written. The write of the Unit's status comes after the three checks: a
  call that changes the store has passed all three.
\<close>

theorem lease_write_atomic:
  "(\<not> lease_checks_pass s l \<longrightarrow> (\<exists>e. Lease_save s pk l = (Inl e, s))) \<and>
   (Lease_save s pk l = (r, s') \<and> s' \<noteq> s \<longrightarrow> lease_checks_pass s l)"
proof (intro conjI impI)
  assume "\<not> lease_checks_pass s l"
  then show "\<exists>e. Lease_save s pk l = (Inl e, s)" by (rule Lease_save_checks_fail)
next
  assume a: "Lease_save s pk l = (r, s') \<and> s' \<noteq> s"
  show "lease_checks_pass s l"
  proof (rule ccontr)
    assume "\<not> lease_checks_pass s l"
    from Lease_save_checks_fail[OF this, of pk] a show False by auto
  qed
qed

theorem lease_write_atomic_witness:
  "\<not> lease_checks_pass test_store (test_lease\<lparr>landlord_id := 3\<rparr>) \<and>
   Lease_save test_store None (test_lease\<lparr>landlord_id := 3\<rparr>) = (Inl (ValueError owner_msg), test_store) \<and>
   Lease_save test_store None test_lease = (Inr 1, leased_store) \<and> leased_store \<noteq> test_store \<and>
   lease_checks_pass test_store test_lease"
proof -
  have n: "\<not> lease_checks_pass test_store (test_lease\<lparr>landlord_id := 3\<rparr>)"
    by (simp add: lease_checks_pass_def test_defs)
  have h: "Lease_save test_store None test_lease = (Inr 1, leased_store)"
    by (simp add: save_defs test_defs)
  have d: "leased_store \<noteq> test_store"
    by (simp add: test_defs)
  have e: "Lease_save test_store None (test_lease\<lparr>landlord_id := 3\<rparr>) \<noteq>
             (Inl (ValueError owner_msg), test_store) \<longrightarrow>
           (\<forall>e. Lease_save test_store None (test_lease\<lparr>landlord_id := 3\<rparr>) \<noteq> (Inl e, test_store))"
    by (simp add: save_defs test_defs)
  from lease_write_atomic[of test_store "test_lease\<lparr>landlord_id := 3\<rparr>" None] n e
  have a: "Lease_save test_store None (test_lease\<lparr>landlord_id := 3\<rparr>) =
             (Inl (ValueError owner_msg), test_store)"
    by blast
  from lease_write_atomic[of test_store test_lease None "Inr 1" leased_store] h d
  have "lease_checks_pass test_store test_lease" by blast
  with n a h d show ?thesis by simp
qed

text \<open>
  Claim C2. After every successful Lease write the referenced Unit has status OCCUPIED
  (and the Lease is stored under the returned key). In particular, for a VACANT Unit \<open>U\<close>,
  a TENANT contact \<open>T\<close> and the landlord \<open>L\<close> that owns \<open>U\<close>, creating the Lease
  succeeds: the Unit is stored with status OCCUPIED and the Lease is appended. The unit
  numbers of the store are distinct, as the database keeps them, and the values of the
  Lease are values the backend stores.
\<close>

theorem lease_write_occupies:
  "(Lease_save s pk l = (Inr i, s') \<longrightarrow>
      (\<exists>u. map_of (units s') (unit_id l) = Some u \<and> status u = OCCUPIED) \<and>
      map_of (leases s') i = Some l)
   \<and> (unique_unit_numbers s \<and> map_of (units s) (unit_id l) = Some U \<and> status U = VACANT \<and>
      map_of (contacts s) (tenant_id l) = Some T \<and> contact_type T = TENANT \<and>
      landlord_id l = owner_id U \<and> map_of (contacts s) (owner_id U) = Some L \<and>
      contact_type L = LANDLORD \<and> stores_lease (backend s) l \<longrightarrow>
      (\<exists>i. Lease_save s None l =
         (Inr i, s\<lparr>units := AList.update (unit_id l) (U\<lparr>status := OCCUPIED\<rparr>) (units s),
                   leases := leases s @ [(i, l)]\<rparr>)))"
proof (intro conjI impI)
  assume a: "Lease_save s pk l = (Inr i, s')"
  note ok = Lease_save_ok[OF a]
  then obtain u where u: "map_of (units s) (unit_id l) = Some u"
    and s': "s' = (if status u \<noteq> OCCUPIED
                 then s\<lparr>units := AList.update (unit_id l) (u\<lparr>status := OCCUPIED\<rparr>) (units s),
                         leases := AList.update i l (leases s)\<rparr>
                 else s\<lparr>leases := AList.update i l (leases s)\<rparr>)" by blast
  show "\<exists>u. map_of (units s') (unit_id l) = Some u \<and> status u = OCCUPIED"
  proof (cases "status u = OCCUPIED")
    case True
    with u s' show ?thesis by simp
  next
    case False
    with s' show ?thesis by (simp add: update_conv')
  qed
  from s' show "map_of (leases s') i = Some l"
    by (simp add: update_conv')
next
  assume h: "unique_unit_numbers s \<and> map_of (units s) (unit_id l) = Some U \<and> status U = VACANT \<and>
      map_of (contacts s) (tenant_id l) = Some T \<and> contact_type T = TENANT \<and>
      landlord_id l = owner_id U \<and> map_of (contacts s) (owner_id U) = Some L \<and>
      contact_type L = LANDLORD \<and> stores_lease (backend s) l"
  then have nc: "\<not> list_ex (\<lambda>(j, v). j \<noteq> unit_id l \<and> unit_number v = unit_number (U\<lparr>status := OCCUPIED\<rparr>)) (units s)"
    by (intro unique_no_clash) auto
  have "Lease_save s None l =
         (Inr (fresh_pk (leases s)), s\<lparr>units := AList.update (unit_id l) (U\<lparr>status := OCCUPIED\<rparr>) (units s),
                   leases := leases s @ [(fresh_pk (leases s), l)]\<rparr>)"
    using h nc
    by (simp add: Lease_save_def Unit_save_def Unit_super_save_def Lease_super_save_def
                  pk_of_def Let_def update_fresh_pk)
  then show "\<exists>i. Lease_save s None l =
         (Inr i, s\<lparr>units := AList.update (unit_id l) (U\<lparr>status := OCCUPIED\<rparr>) (units s),
                   leases := leases s @ [(i, l)]\<rparr>)" by blast
qed

theorem lease_write_occupies_witness:
  "unique_unit_numbers test_store \<and>
   map_of (units test_store) (unit_id test_lease) = Some unit_A1 \<and> status unit_A1 = VACANT \<and>
   map_of (contacts test_store) (tenant_id test_lease) = Some jane \<and> contact_type jane = TENANT \<and>
   landlord_id test_lease = owner_id unit_A1 \<and>
   map_of (contacts test_store) (owner_id unit_A1) = Some john \<and> contact_type john = LANDLORD \<and>
   stores_lease (backend test_store) test_lease \<and>
   Lease_save test_store None test_lease = (Inr 1, leased_store) \<and>
   map_of (units leased_store) (unit_id test_lease) = Some (unit_A1\<lparr>status := OCCUPIED\<rparr>) \<and>
   map_of (leases leased_store) 1 = Some test_lease"
proof -
  have g: "unique_unit_numbers test_store \<and>
        map_of (units test_store) (unit_id test_lease) = Some unit_A1 \<and>
        status unit_A1 = VACANT \<and> map_of (contacts test_store) (tenant_id test_lease) = Some jane \<and>
        contact_type jane = TENANT \<and> landlord_id test_lease = owner_id unit_A1 \<and>
        map_of (contacts test_store) (owner_id unit_A1) = Some john \<and> contact_type john = LANDLORD \<and>
        stores_lease (backend test_store) test_lease"
    by (simp add: unique_unit_numbers_def test_defs)
  have u: "test_store\<lparr>units := AList.update (unit_id test_lease) (unit_A1\<lparr>status := OCCUPIED\<rparr>)
                                   (units test_store),
                      leases := leases test_store @ [(i, test_lease)]\<rparr> =
           leased_store \<longleftrightarrow> i = 1" for i
    by (auto simp: test_defs)
  from lease_write_occupies[of test_store None test_lease 1 leased_store unit_A1 jane john] g
  obtain i where "Lease_save test_store None test_lease =
         (Inr i, test_store\<lparr>units := AList.update (unit_id test_lease) (unit_A1\<lparr>status := OCCUPIED\<rparr>)
                                        (units test_store),
                            leases := leases test_store @ [(i, test_lease)]\<rparr>)"
    by blast
  moreover have "fst (Lease_save test_store None test_lease) = Inr 1"
    by (simp add: save_defs test_defs)
  ultimately have h: "Lease_save test_store None test_lease = (Inr 1, leased_store)"
    using u[of 1] by simp
  from lease_write_occupies[of test_store None test_lease 1 leased_store unit_A1 jane john] h
  have "(\<exists>u. map_of (units leased_store) (unit_id test_lease) = Some u \<and> status u = OCCUPIED) \<and>
        map_of (leases leased_store) 1 = Some test_lease"
    by blast
  then have "map_of (units leased_store) (unit_id test_lease) = Some (unit_A1\<lparr>status := OCCUPIED\<rparr>) \<and>
        map_of (leases leased_store) 1 = Some test_lease"
    by (simp add: test_defs)
  with g h show ?thesis by simp
qed

text \<open>
  Claim C3, as stated, fails: \<^verbatim>\<open>Lease.save\<close> makes no occupancy check. On the store that
  holds the test lease on the OCCUPIED unit A1, saving the same Lease again as a new
  instance succeeds and a second Lease row is written.
\<close>

theorem create_on_occupied_counterexample:
  "(case map_of (units leased_store) (unit_id test_lease) of None \<Rightarrow> False | Some u \<Rightarrow> status u = OCCUPIED) \<and>
   fst (Lease_save leased_store None test_lease) = Inr 2 \<and>
   leases (snd (Lease_save leased_store None test_lease)) = [(1, test_lease), (2, test_lease)]"
  by (simp add: save_defs test_defs)

text \<open>
  Claim C3, amended. A create through the API layer against a Unit whose status is
  OCCUPIED is always rejected, and the store is unchanged (no Lease is written): with the
  errors of the fields when a field of the request is invalid, and otherwise by
  \<^verbatim>\<open>LeaseCreateUpdateSerializer.validate\<close> with the \<open>ValidationError\<close> on \<^verbatim>\<open>unit\<close>.
  This check is made by the API layer only: \<^verbatim>\<open>Lease.save\<close> makes no occupancy check, and
  a Lease on that OCCUPIED Unit that passes its three checks, with values the backend
  stores, is written by it.
\<close>

theorem create_on_occupied_rejected:
  assumes "q_unit req = Some uid" and "map_of (units s) uid = Some u" and "status u = OCCUPIED"
  shows "(\<exists>e. LeaseViewSet_create s req = (Inl e, s)) \<and>
         (to_internal_value s False req = Inr data \<longrightarrow>
            LeaseViewSet_create s req = (Inl (ValidationError [(''unit'', occupied_msg)]), s)) \<and>
         (lease_checks_pass s l \<and> unit_id l = uid \<and> stores_lease (backend s) l \<longrightarrow>
            Lease_save s pk l =
              (Inr (pk_of pk (leases s)),
               s\<lparr>leases := AList.update (pk_of pk (leases s)) l (leases s)\<rparr>))"
proof (intro conjI impI)
  have v: "LeaseViewSet_create s req = (Inl (ValidationError [(''unit'', occupied_msg)]), s)"
    if t: "to_internal_value s False req = Inr d" for d
  proof -
    from to_internal_value_unit[OF t assms(1,2)] assms(3)
    have "validate s None d = Inl (ValidationError [(''unit'', occupied_msg)])"
      by (simp add: validate_def)
    with t show ?thesis by (simp add: LeaseViewSet_create_def run_validation_def)
  qed
  show "\<exists>e. LeaseViewSet_create s req = (Inl e, s)"
  proof (cases "to_internal_value s False req")
    case (Inl e)
    then show ?thesis by (simp add: LeaseViewSet_create_def run_validation_def)
  next
    case (Inr d)
    from v[OF this] show ?thesis by simp
  qed
  { assume "to_internal_value s False req = Inr data"
    then show "LeaseViewSet_create s req = (Inl (ValidationError [(''unit'', occupied_msg)]), s)"
      by (rule v) }
  { assume "lease_checks_pass s l \<and> unit_id l = uid \<and> stores_lease (backend s) l"
    with assms(2,3) Lease_save_pass[of s l u pk]
    show "Lease_save s pk l =
              (Inr (pk_of pk (leases s)),
               s\<lparr>leases := AList.update (pk_of pk (leases s)) l (leases s)\<rparr>)"
      by simp }
qed

theorem create_on_occupied_rejected_witness:
  "q_unit test_request = Some 1 \<and>
   map_of (units leased_store) 1 = Some (unit_A1\<lparr>status := OCCUPIED\<rparr>) \<and>
   status (unit_A1\<lparr>status := OCCUPIED\<rparr>) = OCCUPIED \<and>
   to_internal_value leased_store False test_request = Inr test_data \<and>
   LeaseViewSet_create leased_store test_request =
     (Inl (ValidationError [(''unit'', occupied_msg)]), leased_store) \<and>
   lease_checks_pass leased_store test_lease \<and> unit_id test_lease = 1 \<and>
   stores_lease (backend leased_store) test_lease \<and>
   Lease_save leased_store None test_lease =
     (Inr 2, leased_store\<lparr>leases := [(1, test_lease), (2, test_lease)]\<rparr>)"
proof -
  have a: "q_unit test_request = Some 1"
    "map_of (units leased_store) 1 = Some (unit_A1\<lparr>status := OCCUPIED\<rparr>)"
    "status (unit_A1\<lparr>status := OCCUPIED\<rparr>) = OCCUPIED"
    by (simp_all add: test_defs)
  have t: "to_internal_value leased_store False test_request = Inr test_data"
    by (simp add: api_defs test_defs valid_date_def date_new_def monthrange_ndays_def mdays_def)
  have c: "lease_checks_pass leased_store test_lease \<and> unit_id test_lease = 1 \<and>
           stores_lease (backend leased_store) test_lease"
    by (simp add: lease_checks_pass_def test_defs)
  have p: "pk_of None (leases leased_store) = 2"
    "AList.update 2 test_lease (leases leased_store) = [(1, test_lease), (2, test_lease)]"
    by (simp_all add: pk_of_def fresh_pk_def test_defs)
  from create_on_occupied_rejected[OF a, of test_data test_lease None] t c p
  have "LeaseViewSet_create leased_store test_request =
          (Inl (ValidationError [(''unit'', occupied_msg)]), leased_store) \<and>
        Lease_save leased_store None test_lease =
          (Inr 2, leased_store\<lparr>leases := [(1, test_lease), (2, test_lease)]\<rparr>)"
    by simp
  with a t c show ?thesis by simp
qed

text \<open>
  Claim C4. A Lease write whose tenant contact is not a TENANT or whose landlord contact is
  not a LANDLORD raises the \<open>ValueError\<close> of the role that fails first (the tenant's when
  both fail), and the store, hence the status of the referenced Unit, is unchanged.
\<close>

theorem lease_role_violation:
  assumes "map_of (contacts s) (tenant_id l) = Some t"
    and "map_of (contacts s) (landlord_id l) = Some c"
    and "contact_type t \<noteq> TENANT \<or> contact_type c \<noteq> LANDLORD"
  shows "Lease_save s pk l =
           (Inl (ValueError (if contact_type t \<noteq> TENANT then tenant_msg else landlord_msg)), s)"
  using assms by (auto simp: Lease_save_def)

theorem lease_role_violation_witness:
  "map_of (contacts test_store) (tenant_id (test_lease\<lparr>tenant_id := 1\<rparr>)) = Some john \<and>
   map_of (contacts test_store) (landlord_id (test_lease\<lparr>tenant_id := 1\<rparr>)) = Some john \<and>
   contact_type john \<noteq> TENANT \<and>
   Lease_save test_store None (test_lease\<lparr>tenant_id := 1\<rparr>) = (Inl (ValueError tenant_msg), test_store)"
  using lease_role_violation[of test_store "test_lease\<lparr>tenant_id := 1\<rparr>" john john None]
  by (simp add: test_defs)

text \<open>
  Claim C5, as stated, fails: on the test data, a Lease on unit A1 whose landlord is the
  tenant Jane Smith (who does not own A1) is rejected by the role check that comes before
  the ownership check, with the landlord-role message and not the ownership message.
\<close>

theorem lease_owner_mismatch_counterexample:
  "map_of (units test_store) (unit_id (test_lease\<lparr>landlord_id := 2\<rparr>)) = Some unit_A1 \<and>
   landlord_id (test_lease\<lparr>landlord_id := 2\<rparr>) \<noteq> owner_id unit_A1 \<and>
   Lease_save test_store None (test_lease\<lparr>landlord_id := 2\<rparr>) = (Inl (ValueError landlord_msg), test_store) \<and>
   Lease_save test_store None (test_lease\<lparr>landlord_id := 2\<rparr>) \<noteq> (Inl (ValueError owner_msg), test_store)"
  by (simp add: save_defs test_defs landlord_msg_def owner_msg_def)

text \<open>
  Claim C5, amended. A Lease write whose landlord is not the owner of the referenced Unit
  always raises and leaves the store unchanged (no Lease is written); the error is the
  ownership \<open>ValueError\<close> when both role checks pass (tenant a TENANT, landlord a
  LANDLORD) and the owner's row exists.
\<close>

theorem lease_owner_mismatch:
  assumes "map_of (units s) (unit_id l) = Some u" and "landlord_id l \<noteq> owner_id u"
  shows "(\<exists>e. Lease_save s pk l = (Inl e, s)) \<and>
         ((case map_of (contacts s) (tenant_id l) of None \<Rightarrow> False | Some t \<Rightarrow> contact_type t = TENANT) \<and>
          (case map_of (contacts s) (landlord_id l) of None \<Rightarrow> False | Some c \<Rightarrow> contact_type c = LANDLORD) \<and>
          map_of (contacts s) (owner_id u) \<noteq> None \<longrightarrow>
          Lease_save s pk l = (Inl (ValueError owner_msg), s))"
  using assms by (auto simp: Lease_save_def split: option.splits)

theorem lease_owner_mismatch_witness:
  "map_of (units test_store) (unit_id (test_lease\<lparr>landlord_id := 3\<rparr>)) = Some unit_A1 \<and>
   landlord_id (test_lease\<lparr>landlord_id := 3\<rparr>) \<noteq> owner_id unit_A1 \<and>
   map_of (contacts test_store) (tenant_id (test_lease\<lparr>landlord_id := 3\<rparr>)) = Some jane \<and>
   contact_type jane = TENANT \<and>
   map_of (contacts test_store) (landlord_id (test_lease\<lparr>landlord_id := 3\<rparr>)) = Some mary \<and>
   contact_type mary = LANDLORD \<and>
   map_of (contacts test_store) (owner_id unit_A1) = Some john \<and>
   Lease_save test_store None (test_lease\<lparr>landlord_id := 3\<rparr>) = (Inl (ValueError owner_msg), test_store)"
  using lease_owner_mismatch[of test_store "test_lease\<lparr>landlord_id := 3\<rparr>" unit_A1 None]
  by (simp add: test_defs)

text \<open>
  Claim C10. The occupied-unit check is made on a create only. The errors of an update
  (\<^verbatim>\<open>update\<close> or \<^verbatim>\<open>partial_update\<close>) never hold the occupied-unit message on \<^verbatim>\<open>unit\<close>;
  and an update of an existing Lease whose request passes the validation of its fields
  and that ends with a TENANT tenant, a LANDLORD landlord and that landlord owning the
  unit succeeds, also when the unit it ends with is OCCUPIED already: the Lease row is
  replaced, and the unit's row is written only if its status was not OCCUPIED (for which
  the unit numbers of the store are distinct, as the database keeps them). The values of
  the resulting Lease are values the backend stores.
\<close>

theorem update_skips_occupancy_check:
  "(fst (LeaseViewSet_update s pk partial req) = Inl (ValidationError es) \<longrightarrow>
      (''unit'', occupied_msg) \<notin> set es)
   \<and> (map_of (leases s) pk = Some inst \<and> to_internal_value s partial req = Inr data \<and>
    lease_checks_pass s (set_attrs inst data) \<and>
    map_of (units s) (unit_id (set_attrs inst data)) = Some u \<and>
    (status u = OCCUPIED \<or> unique_unit_numbers s) \<and>
    stores_lease (backend s) (set_attrs inst data) \<longrightarrow>
    LeaseViewSet_update s pk partial req =
      (Inr pk,
       if status u = OCCUPIED
       then s\<lparr>leases := AList.update pk (set_attrs inst data) (leases s)\<rparr>
       else s\<lparr>units := AList.update (unit_id (set_attrs inst data)) (u\<lparr>status := OCCUPIED\<rparr>) (units s),
               leases := AList.update pk (set_attrs inst data) (leases s)\<rparr>))"
proof (intro conjI impI)
  assume a: "fst (LeaseViewSet_update s pk partial req) = Inl (ValidationError es)"
  show "(''unit'', occupied_msg) \<notin> set es"
  proof (cases "map_of (leases s) pk")
    case None
    with a show ?thesis by (simp add: LeaseViewSet_update_def)
  next
    case (Some inst)
    show ?thesis
    proof (cases "run_validation s (Some (pk, inst)) partial req")
      case (Inl e)
      with a Some have "run_validation s (Some (pk, inst)) partial req = Inl (ValidationError es)"
        by (simp add: LeaseViewSet_update_def)
      then show ?thesis by (rule run_validation_update_no_occupied)
    next
      case (Inr d)
      with a Some Lease_save_no_ValidationError[of s "Some pk" "set_attrs inst d" es]
      show ?thesis by (simp add: LeaseViewSet_update_def)
    qed
  qed
next
  assume h: "map_of (leases s) pk = Some inst \<and> to_internal_value s partial req = Inr data \<and>
    lease_checks_pass s (set_attrs inst data) \<and>
    map_of (units s) (unit_id (set_attrs inst data)) = Some u \<and>
    (status u = OCCUPIED \<or> unique_unit_numbers s) \<and>
    stores_lease (backend s) (set_attrs inst data)"
  then have "loaded_from s data" by (intro to_internal_value_loaded[of s partial req]) simp
  with h have v: "validate s (Some (pk, inst)) data = Inr data"
    by (intro validate_pass) auto
  from h have "Lease_save s (Some pk) (set_attrs inst data) =
      (Inr pk,
       if status u = OCCUPIED
       then s\<lparr>leases := AList.update pk (set_attrs inst data) (leases s)\<rparr>
       else s\<lparr>units := AList.update (unit_id (set_attrs inst data)) (u\<lparr>status := OCCUPIED\<rparr>) (units s),
               leases := AList.update pk (set_attrs inst data) (leases s)\<rparr>)"
    using Lease_save_pass[of s "set_attrs inst data" u "Some pk"] by (simp add: pk_of_def)
  with h v show "LeaseViewSet_update s pk partial req =
      (Inr pk,
       if status u = OCCUPIED
       then s\<lparr>leases := AList.update pk (set_attrs inst data) (leases s)\<rparr>
       else s\<lparr>units := AList.update (unit_id (set_attrs inst data)) (u\<lparr>status := OCCUPIED\<rparr>) (units s),
               leases := AList.update pk (set_attrs inst data) (leases s)\<rparr>)"
    by (simp add: LeaseViewSet_update_def run_validation_def)
qed

theorem update_skips_occupancy_check_witness:
  "map_of (leases two_unit_store) 1 = Some test_lease \<and>
   to_internal_value two_unit_store True (no_request\<lparr>q_unit := Some 2\<rparr>) =
     Inr (no_data\<lparr>d_unit := Some (2, unit_B2)\<rparr>) \<and>
   set_attrs test_lease (no_data\<lparr>d_unit := Some (2, unit_B2)\<rparr>) = test_lease\<lparr>unit_id := 2\<rparr> \<and>
   lease_checks_pass two_unit_store (test_lease\<lparr>unit_id := 2\<rparr>) \<and>
   map_of (units two_unit_store) 2 = Some unit_B2 \<and> status unit_B2 = OCCUPIED \<and>
   stores_lease (backend two_unit_store) (test_lease\<lparr>unit_id := 2\<rparr>) \<and>
   LeaseViewSet_update two_unit_store 1 True (no_request\<lparr>q_unit := Some 2\<rparr>) =
     (Inr 1, two_unit_store\<lparr>leases := [(1, test_lease\<lparr>unit_id := 2\<rparr>)]\<rparr>)"
proof -
  let ?q = "no_request\<lparr>q_unit := Some 2\<rparr>"
  let ?d = "no_data\<lparr>d_unit := Some (2, unit_B2)\<rparr>"
  have t: "to_internal_value two_unit_store True ?q = Inr ?d"
    by (simp add: api_defs test_defs)
  have a: "set_attrs test_lease ?d = test_lease\<lparr>unit_id := 2\<rparr>"
    by (simp add: set_attrs_def test_defs)
  have o: "status unit_B2 = OCCUPIED" by (simp add: unit_B2_def)
  have b: "map_of (leases two_unit_store) 1 = Some test_lease \<and>
    lease_checks_pass two_unit_store (set_attrs test_lease ?d) \<and>
    map_of (units two_unit_store) (unit_id (set_attrs test_lease ?d)) = Some unit_B2 \<and>
    (status unit_B2 = OCCUPIED \<or> unique_unit_numbers two_unit_store) \<and>
    stores_lease (backend two_unit_store) (set_attrs test_lease ?d)"
    unfolding a by (simp add: lease_checks_pass_def test_defs)
  from update_skips_occupancy_check[of two_unit_store 1 True ?q _ test_lease ?d unit_B2] t b o
  have "LeaseViewSet_update two_unit_store 1 True ?q =
      (Inr 1, two_unit_store\<lparr>leases := AList.update 1 (set_attrs test_lease ?d) (leases two_unit_store)\<rparr>)"
    by simp
  then have "LeaseViewSet_update two_unit_store 1 True ?q =
     (Inr 1, two_unit_store\<lparr>leases := [(1, test_lease\<lparr>unit_id := 2\<rparr>)]\<rparr>)"
    unfolding a by (simp add: two_unit_store_def)
  with t a b[unfolded a] o show ?thesis by simp
qed

subsection \<open>Unit writes\<close>

text \<open>
  Claim C6. After a successful Unit write the owner of the written Unit is a LANDLORD
  contact, and if the owner of every Unit was a LANDLORD before the write, so it is after;
  a Unit write whose owner is a contact of another type raises
  \<open>ValueError\<close> and leaves the store unchanged.
\<close>

theorem unit_write_owner_landlord:
  "(Unit_save s pk u = (Inr i, s') \<longrightarrow>
      (\<exists>c. map_of (contacts s') (owner_id u) = Some c \<and> contact_type c = LANDLORD) \<and>
      map_of (units s') i = Some u \<and>
      (owners_are_landlords s \<longrightarrow> owners_are_landlords s'))
   \<and> (map_of (contacts s) (owner_id u) = Some c \<and> contact_type c \<noteq> LANDLORD \<longrightarrow>
      Unit_save s pk u = (Inl (ValueError unit_owner_msg), s))"
proof (intro conjI impI)
  assume a: "Unit_save s pk u = (Inr i, s')"
  note ok = Unit_save_ok[OF a]
  from ok show "\<exists>c. map_of (contacts s') (owner_id u) = Some c \<and> contact_type c = LANDLORD" by auto
  from ok show "map_of (units s') i = Some u" by (simp add: update_conv')
  assume "owners_are_landlords s"
  with ok show "owners_are_landlords s'"
    by (auto simp: owners_are_landlords_def intro!: list_all_update)
next
  assume "map_of (contacts s) (owner_id u) = Some c \<and> contact_type c \<noteq> LANDLORD"
  then show "Unit_save s pk u = (Inl (ValueError unit_owner_msg), s)"
    by (simp add: Unit_save_def)
qed

theorem unit_write_owner_landlord_witness:
  "Unit_save test_store None (unit_B2\<lparr>owner_id := 2\<rparr>) = (Inl (ValueError unit_owner_msg), test_store) \<and>
   Unit_save test_store None unit_B2 = (Inr 2, test_store\<lparr>units := [(1, unit_A1), (2, unit_B2)]\<rparr>) \<and>
   owners_are_landlords test_store \<and>
   owners_are_landlords (test_store\<lparr>units := [(1, unit_A1), (2, unit_B2)]\<rparr>)"
proof -
  have a: "Unit_save test_store None unit_B2 = (Inr 2, test_store\<lparr>units := [(1, unit_A1), (2, unit_B2)]\<rparr>)"
    by (simp add: save_defs test_defs)
  have b: "map_of (contacts test_store) (owner_id (unit_B2\<lparr>owner_id := 2\<rparr>)) = Some jane \<and>
           contact_type jane \<noteq> LANDLORD"
    by (simp add: test_defs)
  have c: "owners_are_landlords test_store"
    by (simp add: owners_are_landlords_def test_defs)
  from unit_write_owner_landlord[of test_store None unit_B2 2
        "test_store\<lparr>units := [(1, unit_A1), (2, unit_B2)]\<rparr>"] a c
  have d: "owners_are_landlords (test_store\<lparr>units := [(1, unit_A1), (2, unit_B2)]\<rparr>)" by simp
  from unit_write_owner_landlord[of test_store None "unit_B2\<lparr>owner_id := 2\<rparr>" _ _ jane] b
  have "Unit_save test_store None (unit_B2\<lparr>owner_id := 2\<rparr>) = (Inl (ValueError unit_owner_msg), test_store)"
    by simp
  with a c d show ?thesis by simp
qed

subsection \<open>The store invariants are kept\<close>

text \<open>
  The two properties of a store that the theorems on writes assume, distinct primary keys
  and distinct unit numbers, hold of the empty store and are kept by every successful Unit
  write and Lease write: they hold of every store these operations build.
\<close>

lemma set_update_subset: "set (AList.update k v al) \<subseteq> insert (k, v) (set al)"
  by (induction al) auto

lemma distinct_map_update:
  assumes "distinct (map fst al)" and "distinct (map (\<lambda>p. g (snd p)) al)"
    and "\<forall>(j, w) \<in> set al. j \<noteq> k \<longrightarrow> g w \<noteq> g v"
  shows "distinct (map (\<lambda>p. g (snd p)) (AList.update k v al))"
  using assms
proof (induction al)
  case Nil
  then show ?case by simp
next
  case (Cons p al)
  obtain j w where p: "p = (j, w)" by (cases p)
  show ?case
  proof (cases "j = k")
    case True
    have "g v \<notin> (\<lambda>p. g (snd p)) ` set al"
    proof
      assume "g v \<in> (\<lambda>p. g (snd p)) ` set al"
      then obtain q where q: "q \<in> set al" "g v = g (snd q)" by auto
      with Cons.prems(1) p True have "fst q \<noteq> k" by (auto simp: image_iff)
      with q Cons.prems(3) show False by (cases q) auto
    qed
    moreover from Cons.prems(2) have "distinct (map (\<lambda>p. g (snd p)) al)" by simp
    ultimately show ?thesis using p True by simp
  next
    case False
    from Cons have ih: "distinct (map (\<lambda>p. g (snd p)) (AList.update k v al))" by auto
    have "g w \<notin> (\<lambda>p. g (snd p)) ` set (AList.update k v al)"
    proof
      assume "g w \<in> (\<lambda>p. g (snd p)) ` set (AList.update k v al)"
      then obtain q where q: "q \<in> set (AList.update k v al)" "g w = g (snd q)" by auto
      with set_update_subset[of k v al] have "q = (k, v) \<or> q \<in> set al" by auto
      then show False
      proof
        assume "q = (k, v)"
        with q Cons.prems(3) p False show False by auto
      next
        assume "q \<in> set al"
        with q Cons.prems(2) p show False by (auto simp: image_iff)
      qed
    qed
    with ih p False show ?thesis by simp
  qed
qed

lemma Unit_save_keeps_invariants:
  assumes "Unit_save s pk u = (Inr i, s')"
    and "distinct (map fst (units s))" and "unique_unit_numbers s"
  shows "distinct (map fst (units s')) \<and> unique_unit_numbers s'"
proof -
  from assms(1) have s': "s' = s\<lparr>units := AList.update i u (units s)\<rparr>"
    by (auto dest: Unit_save_ok)
  from assms(1) have "\<not> list_ex (\<lambda>(j, v). j \<noteq> i \<and> unit_number v = unit_number u) (units s)"
    by (auto simp: Unit_save_def Unit_super_save_def Let_def split: option.splits if_splits)
  then have "\<forall>(j, w) \<in> set (units s). j \<noteq> i \<longrightarrow> unit_number w \<noteq> unit_number u"
    by (auto simp: list_ex_iff)
  with assms(2,3) show ?thesis
    unfolding s' unique_unit_numbers_def comp_def
    by (simp add: distinct_update distinct_map_update)
qed

lemma Lease_save_keeps_invariants:
  assumes "Lease_save s pk l = (r, s')"
    and "distinct (map fst (units s))" and "unique_unit_numbers s"
  shows "distinct (map fst (units s')) \<and> unique_unit_numbers s'"
proof (cases "units s' = units s")
  case True
  with assms(2,3) show ?thesis by (simp add: unique_unit_numbers_def)
next
  case False
  with Lease_save_units[OF assms(1)] obtain u where u: "map_of (units s) (unit_id l) = Some u"
    and s': "units s' = units s \<or>
             units s' = AList.update (unit_id l) (u\<lparr>status := OCCUPIED\<rparr>) (units s)"
    by auto
  from unique_no_clash[OF assms(3) u, of OCCUPIED]
  have "\<forall>(j, w) \<in> set (units s). j \<noteq> unit_id l \<longrightarrow>
          unit_number w \<noteq> unit_number (u\<lparr>status := OCCUPIED\<rparr>)"
    by (auto simp: list_ex_iff)
  with assms(2,3) s' show ?thesis
    unfolding unique_unit_numbers_def comp_def
    by (auto simp: distinct_update distinct_map_update)
qed

section \<open>Properties of the Lease Calculator\<close>

lemma monthrange_ndays_eq:
  assumes "1 \<le> m" and "m \<le> 12"
  shows "monthrange_ndays y m = Inr (last_day y m)"
proof -
  from assms have "m = 1 \<or> m = 2 \<or> m = 3 \<or> m = 4 \<or> m = 5 \<or> m = 6 \<or> m = 7 \<or> m = 8 \<or>
                   m = 9 \<or> m = 10 \<or> m = 11 \<or> m = 12" by arith
  then show ?thesis
    by (elim disjE) (simp_all add: monthrange_ndays_def mdays_def last_day_def)
qed

lemma last_day_bounds: "28 \<le> last_day y m \<and> last_day y m \<le> 31"
  by (simp add: last_day_def)

lemma valid_dateD:
  assumes "valid_date d"
  shows "1 \<le> year d" "year d \<le> 9999" "1 \<le> month d" "month d \<le> 12"
        "1 \<le> day d" "day d \<le> last_day (year d) (month d)"
proof -
  from assms have a: "date_new (year d) (month d) (day d) = Inr d"
    by (simp add: valid_date_def)
  then show y: "1 \<le> year d" "year d \<le> 9999"
    by (auto simp: date_new_def split: if_splits)
  from a y show m: "1 \<le> month d" "month d \<le> 12"
    by (auto simp: date_new_def monthrange_ndays_def split: if_splits)
  from a y show "1 \<le> day d" "day d \<le> last_day (year d) (month d)"
    by (auto simp: date_new_def monthrange_ndays_eq[OF m] split: if_splits)
qed

lemma relativedelta_months_nonneg:
  "0 \<le> n \<Longrightarrow> relativedelta_months n = \<lparr>years = n div 12, months = n mod 12\<rparr>"
  by (simp add: relativedelta_months_def relativedelta_fix_def sign_def Let_def)

lemma add_months_split:
  fixes y m n :: int
  assumes "1 \<le> m" and "m \<le> 12" and "0 \<le> n"
  shows "(y * 12 + (m - 1) + n) div 12 =
           (if m + n mod 12 > 12 then y + n div 12 + 1 else y + n div 12)"
    and "(y * 12 + (m - 1) + n) mod 12 + 1 =
           (if m + n mod 12 > 12 then m + n mod 12 - 12 else m + n mod 12)"
proof -
  define q r k where "q = n div 12" and "r = n mod 12" and "k = m - 1 + r"
  have n: "n = 12 * q + r" and r: "0 \<le> r" "r < 12"
    by (simp_all add: q_def r_def)
  have k: "0 \<le> k" "k < 23" using assms(1,2) r by (simp_all add: k_def)
  have t: "y * 12 + (m - 1) + n = 12 * (y + q) + k"
    by (simp add: n k_def)
  have d: "(12 * (y + q) + k) div 12 = y + q + k div 12"
    by (simp only: div_mult_self4)
  have md: "(12 * (y + q) + k) mod 12 = k mod 12"
    by (simp only: mod_mult_self4)
  have kd: "k div 12 = (if 12 \<le> k then 1 else 0)" using k by arith
  have km: "k mod 12 = (if 12 \<le> k then k - 12 else k)" using k by arith
  show "(y * 12 + (m - 1) + n) div 12 =
           (if m + n mod 12 > 12 then y + n div 12 + 1 else y + n div 12)"
    unfolding t d kd q_def[symmetric] r_def[symmetric] by (simp add: k_def)
  show "(y * 12 + (m - 1) + n) mod 12 + 1 =
           (if m + n mod 12 > 12 then m + n mod 12 - 12 else m + n mod 12)"
    unfolding t md km r_def[symmetric] by (simp add: k_def)
qed

text \<open>
  Claim C7, amended. For every valid start date and every duration of at least one month,
  \<^verbatim>\<open>get_end_date\<close> returns the start date plus that many calendar months, the day clamped
  to the last day of the target month, whenever the target year is at most 9999, the
  largest year of a \<^verbatim>\<open>datetime.date\<close>. Beyond it the addition raises: \<open>ValueError\<close>
  for a target year that is a C integer of 32 bits, \<open>OverflowError\<close> for a larger one.
  The three dates of the specification are instances: see the witness.
\<close>

theorem end_date_add_months:
  assumes "valid_date d" and "1 \<le> n"
  shows "get_end_date (Some d) n =
           (if year (add_months d n) \<le> 9999 then Inr (Some (add_months d n))
            else if year (add_months d n) \<le> 2147483647 then Inl (ValueError year_msg)
            else Inl OverflowError)"
proof -
  note v = valid_dateD[OF assms(1)]
  from assms(2) have n0: "0 \<le> n" by simp
  define r where "r = n mod 12"
  have r: "0 \<le> r" "r < 12" by (simp_all add: r_def)
  define y' m' where "y' = (if month d + r > 12 then year d + n div 12 + 1 else year d + n div 12)"
    and "m' = (if month d + r > 12 then month d + r - 12 else month d + r)"
  have am: "add_months d n = \<lparr>year = y', month = m', day = min (day d) (last_day y' m')\<rparr>"
    using add_months_split[OF v(3,4) n0, of "year d"]
    by (simp add: add_months_def Let_def y'_def m'_def r_def)
  have m'b: "1 \<le> m'" "m' \<le> 12" using v(3,4) r by (auto simp: m'_def)
  have "0 \<le> n div 12" using n0 by (simp add: pos_imp_zdiv_nonneg_iff)
  then have y'b: "1 \<le> y'" using v(1) by (auto simp: y'_def)
  have dayb: "1 \<le> min (last_day y' m') (day d)" "min (last_day y' m') (day d) \<le> last_day y' m'"
    using v(5) last_day_bounds[of y' m'] by auto
  have ra: "relativedelta_add (relativedelta_months n) d = date_new y' m' (min (last_day y' m') (day d))"
    using r v(3,4) monthrange_ndays_eq[OF m'b, of y']
    by (auto simp: relativedelta_months_nonneg[OF n0] relativedelta_add_def Let_def
                   y'_def m'_def r_def[symmetric])
  have "date_new y' m' (min (last_day y' m') (day d)) =
          (if y' \<le> 9999 then Inr \<lparr>year = y', month = m', day = min (day d) (last_day y' m')\<rparr>
           else if y' \<le> 2147483647 then Inl (ValueError year_msg)
           else Inl OverflowError)"
    using y'b dayb by (simp add: date_new_def monthrange_ndays_eq[OF m'b] min.commute)
  with ra am show ?thesis by (simp add: get_end_date_def)
qed

lemmas date_defs = get_end_date_def relativedelta_add_def relativedelta_months_def relativedelta_fix_def
  sign_def date_new_def monthrange_ndays_def mdays_def isleap_def Let_def add_months_def last_day_def valid_date_def

theorem end_date_add_months_witness:
  "valid_date \<lparr>year = 2025, month = 1, day = 31\<rparr> \<and>
   valid_date \<lparr>year = 2024, month = 1, day = 31\<rparr> \<and>
   valid_date \<lparr>year = 2025, month = 1, day = 1\<rparr> \<and> (1::int) \<le> 1 \<and> (1::int) \<le> 12 \<and>
   (1::int) \<le> 12 * 2147483647 \<and>
   get_end_date (Some \<lparr>year = 2025, month = 1, day = 1\<rparr>) (12 * 2147483647) = Inl OverflowError \<and>
   get_end_date (Some \<lparr>year = 2025, month = 1, day = 31\<rparr>) 1 = Inr (Some \<lparr>year = 2025, month = 2, day = 28\<rparr>) \<and>
   get_end_date (Some \<lparr>year = 2024, month = 1, day = 31\<rparr>) 1 = Inr (Some \<lparr>year = 2024, month = 2, day = 29\<rparr>) \<and>
   get_end_date (Some \<lparr>year = 2025, month = 1, day = 1\<rparr>) 12 = Inr (Some \<lparr>year = 2026, month = 1, day = 1\<rparr>)"
proof -
  have a: "valid_date \<lparr>year = 2025, month = 1, day = 31\<rparr>" by (simp add: date_defs)
  have b: "valid_date \<lparr>year = 2024, month = 1, day = 31\<rparr>" by (simp add: date_defs)
  have c: "valid_date \<lparr>year = 2025, month = 1, day = 1\<rparr>" by (simp add: date_defs)
  from end_date_add_months[OF a, of 1] end_date_add_months[OF b, of 1] end_date_add_months[OF c, of 12]
       end_date_add_months[OF c, of "12 * 2147483647"] a b c
  show ?thesis by (simp add: add_months_def last_day_def isleap_def Let_def)
qed

text \<open>
  Claim C7, as stated for every start date and every duration, fails: one month after
  1 December 9999 is no \<^verbatim>\<open>datetime.date\<close>, and the addition raises.
\<close>

theorem end_date_counterexample:
  "valid_date \<lparr>year = 9999, month = 12, day = 1\<rparr> \<and> (1::int) \<le> 1 \<and>
   get_end_date (Some \<lparr>year = 9999, month = 12, day = 1\<rparr>) 1 = Inl (ValueError year_msg) \<and>
   get_end_date (Some \<lparr>year = 9999, month = 12, day = 1\<rparr>) 1 \<noteq>
     Inr (Some (add_months \<lparr>year = 9999, month = 12, day = 1\<rparr> 1))"
  by (simp add: date_defs)

section \<open>Properties of the Aggregation Engine\<close>

subsection \<open>Rounding\<close>

lemma bit_length_bounds:
  "0 < n \<Longrightarrow> 2 ^ (bit_length n - 1) \<le> n \<and> n < 2 ^ bit_length n"
proof (induction n rule: bit_length.induct)
  case (1 n)
  show ?case
  proof (cases "n div 2 = 0")
    case True
    with "1.prems" have "n = 1" by (simp add: div_eq_0_iff)
    then show ?thesis by (simp add: bit_length.simps[of "Suc 0"] bit_length.simps[of 0])
  next
    case False
    then have pos: "0 < n div 2" by simp
    from "1.IH"[OF _ pos] "1.prems"
    have ih: "2 ^ (bit_length (n div 2) - 1) \<le> n div 2" "n div 2 < 2 ^ bit_length (n div 2)"
      by auto
    have bl: "bit_length n = Suc (bit_length (n div 2))"
      using "1.prems" by (subst bit_length.simps) simp
    have blpos: "0 < bit_length (n div 2)"
      using pos by (subst bit_length.simps) simp
    then obtain k where k: "bit_length (n div 2) = Suc k" by (cases "bit_length (n div 2)") auto
    from ih k have "2 ^ k \<le> n div 2" "n div 2 < 2 ^ Suc k" by simp_all
    then have "2 * 2 ^ k \<le> n" "n < 2 * 2 ^ Suc k" by auto
    then show ?thesis by (simp add: bl k)
  qed
qed

lemma round_half_even_error: "\<bar>of_int (round_half_even x) - x\<bar> \<le> 1 / 2"
proof -
  have "of_int \<lfloor>x\<rfloor> \<le> x" "x < of_int \<lfloor>x\<rfloor> + 1" by linarith+
  then show ?thesis
    by (auto simp: round_half_even_def Let_def abs_le_iff)
qed

lemma float_exponent_lower:
  assumes "0 < x"
  shows "2 powi (float_exponent x) \<le> x"
proof (cases "1 \<le> x")
  case True
  define n where "n = nat \<lfloor>x\<rfloor>"
  from True have n1: "0 < n" by (simp add: n_def)
  have nx: "of_nat n \<le> x" using True by (simp add: n_def)
  from bit_length_bounds[OF n1] have "2 ^ (bit_length n - 1) \<le> n" by simp
  then have "(of_nat (2 ^ (bit_length n - 1)) :: rat) \<le> of_nat n"
    by (rule of_nat_mono)
  then have "(2::rat) ^ (bit_length n - 1) \<le> of_nat n" by simp
  with nx have le: "(2::rat) ^ (bit_length n - 1) \<le> x" by linarith
  have "0 < bit_length n" using n1 by (subst bit_length.simps) simp
  then have "float_exponent x = int (bit_length n - 1)"
    using True by (simp add: float_exponent_def n_def[symmetric] of_nat_diff)
  with le show ?thesis by simp
next
  case False
  with assms have x1: "x < 1" by simp
  define y where "y = 1 / x"
  have y1: "1 < y" using assms x1 by (simp add: y_def)
  define n where "n = nat (\<lceil>y\<rceil> - 1)"
  have cy: "2 \<le> \<lceil>y\<rceil>" using y1 by linarith
  then have n1: "0 < n" by (simp add: n_def)
  have "y \<le> of_int \<lceil>y\<rceil>" by linarith
  then have yn: "y \<le> of_nat n + 1" using cy by (simp add: n_def)
  from bit_length_bounds[OF n1] have "n + 1 \<le> 2 ^ bit_length n" by simp
  then have "(of_nat (n + 1) :: rat) \<le> of_nat (2 ^ bit_length n)"
    by (rule of_nat_mono)
  then have "(of_nat n + 1 :: rat) \<le> 2 ^ bit_length n" by simp
  with yn have "y \<le> 2 ^ bit_length n" by simp
  then have "1 / x \<le> 2 ^ bit_length n" by (simp add: y_def)
  then have "1 \<le> 2 ^ bit_length n * x" using assms by (simp add: field_simps)
  then have "1 / 2 ^ bit_length n \<le> x" by (simp add: field_simps)
  moreover have "float_exponent x = - int (bit_length n)"
    using False by (simp add: float_exponent_def n_def y_def)
  ultimately show ?thesis by (simp add: power_int_minus field_simps)
qed

lemma float_exponent_upper:
  assumes "0 < x"
  shows "x < 2 powi (float_exponent x + 1)"
proof (cases "1 \<le> x")
  case True
  define n where "n = nat \<lfloor>x\<rfloor>"
  from True have n1: "0 < n" by (simp add: n_def)
  have xn: "x < of_nat n + 1" using True by (simp add: n_def) linarith
  from bit_length_bounds[OF n1] have "n + 1 \<le> 2 ^ bit_length n" by simp
  then have "(of_nat (n + 1) :: rat) \<le> of_nat (2 ^ bit_length n)" by (rule of_nat_mono)
  then have "(of_nat n + 1 :: rat) \<le> 2 ^ bit_length n" by simp
  with xn have lt: "x < 2 ^ bit_length n" by linarith
  have "float_exponent x + 1 = int (bit_length n)"
    using True by (simp add: float_exponent_def n_def[symmetric])
  with lt show ?thesis by simp
next
  case False
  with assms have x1: "x < 1" by simp
  define y where "y = 1 / x"
  have y1: "1 < y" using assms x1 by (simp add: y_def)
  define n where "n = nat (\<lceil>y\<rceil> - 1)"
  have cy: "2 \<le> \<lceil>y\<rceil>" using y1 by linarith
  then have n1: "0 < n" by (simp add: n_def)
  have "of_int \<lceil>y\<rceil> - 1 < y" by linarith
  then have ny: "of_nat n < y" using cy by (simp add: n_def)
  have blpos: "0 < bit_length n" using n1 by (subst bit_length.simps) simp
  from bit_length_bounds[OF n1] have "2 ^ (bit_length n - 1) \<le> n" by simp
  then have "(of_nat (2 ^ (bit_length n - 1)) :: rat) \<le> of_nat n" by (rule of_nat_mono)
  then have p: "(2::rat) ^ (bit_length n - 1) \<le> of_nat n" by simp
  from p ny have "2 ^ (bit_length n - 1) < y" by (rule le_less_trans)
  then have "2 ^ (bit_length n - 1) < 1 / x" by (simp only: y_def)
  then have "x * 2 ^ (bit_length n - 1) < 1" using assms by (simp add: field_simps)
  then have lt: "x < 1 / 2 ^ (bit_length n - 1)" by (simp add: field_simps)
  have "float_exponent x + 1 = - int (bit_length n - 1)"
    using False blpos by (simp add: float_exponent_def n_def y_def of_nat_diff)
  with lt show ?thesis by (simp add: power_int_minus field_simps)
qed

text \<open>
  With the lower bound this places \<open>x / 2\<^sup>e\<^sup>-\<^sup>5\<^sup>2\<close> between \<open>2\<^sup>5\<^sup>2\<close> and \<open>2\<^sup>5\<^sup>3\<close>:
  \<open>round_double\<close> rounds a significand of 53 bits. The error of one rounding follows.
\<close>

lemma round_double_error:
  assumes "2 powi (- 1022) \<le> x"
  shows "\<bar>round_double x - x\<bar> \<le> x / 2 ^ 53"
proof -
  have "(0::rat) < 2 powi (- 1022)" by (rule zero_less_power_int) simp
  from this assms have xpos: "0 < x" by (rule less_le_trans)
  define e where "e = max (float_exponent x) (- 1022)"
  define u :: rat where "u = 2 powi (e - 52)"
  have upos: "0 < u" by (simp add: u_def)
  have ex: "2 powi e \<le> x"
    using float_exponent_lower[OF xpos] assms by (simp add: e_def max_def)
  have rd: "round_double x = of_int (round_half_even (x / u)) * u"
    using xpos by (simp add: round_double_def Let_def e_def u_def)
  have "\<bar>of_int (round_half_even (x / u)) * u - x\<bar> = \<bar>of_int (round_half_even (x / u)) - x / u\<bar> * u"
  proof -
    have "of_int (round_half_even (x / u)) * u - x = (of_int (round_half_even (x / u)) - x / u) * u"
      using upos by (simp add: field_simps)
    then show ?thesis using upos by (simp add: abs_mult)
  qed
  also have "\<dots> \<le> (1 / 2) * u"
    using round_half_even_error[of "x / u"] upos by (intro mult_right_mono) auto
  also have "(1 / 2) * u = 2 powi e / 2 ^ 53"
  proof -
    have "(2::rat) powi (e - 52) = 2 powi e * 2 powi (- 52)"
      using power_int_add[of "2::rat" e "- 52"] by simp
    then show ?thesis by (simp add: u_def power_int_minus field_simps)
  qed
  also have "\<dots> \<le> x / 2 ^ 53" using ex by (simp add: divide_right_mono)
  finally show ?thesis by (simp add: rd)
qed

lemma round_half_even_nonneg: "0 \<le> x \<Longrightarrow> 0 \<le> round_half_even x"
  by (auto simp: round_half_even_def Let_def)

lemma round_double_nonneg: "0 \<le> x \<Longrightarrow> 0 \<le> round_double x"
proof -
  assume x: "0 \<le> x"
  have u: "(0::rat) < 2 powi e" for e by (rule zero_less_power_int) simp
  show ?thesis
  proof (cases "x = 0")
    case True then show ?thesis by (simp add: round_double_def)
  next
    case False
    with x have xp: "0 < x" by simp
    define u' :: rat where "u' = 2 powi (max (float_exponent x) (- 1022) - 52)"
    have up: "0 < u'" unfolding u'_def by (rule u)
    then have "0 \<le> x / u'" using xp by simp
    then have "0 \<le> round_half_even (x / u')" by (rule round_half_even_nonneg)
    then have "0 \<le> of_int (round_half_even (x / u')) * u'" using up by simp
    then show ?thesis using xp by (simp add: round_double_def Let_def u'_def)
  qed
qed

lemma min_normal_le:
  assumes "0 < N" and "N < 2 ^ 63"
  shows "(2::rat) powi (- 1022) \<le> 1 / of_nat N"
proof -
  have "(2::rat) powi (- 1022) \<le> 2 powi (- 63)"
    by (rule power_int_increasing) simp_all
  also have "\<dots> = 1 / 2 ^ 63" by (simp add: power_int_minus field_simps)
  also have "\<dots> \<le> 1 / of_nat N"
  proof -
    from assms(2) have "(of_nat N :: rat) < of_nat (2 ^ 63)" by (simp only: of_nat_less_iff)
    then have "(of_nat N :: rat) \<le> 2 ^ 63" by simp
    moreover have "(0::rat) < of_nat N" using assms(1) by simp
    ultimately show ?thesis by (simp add: frac_le)
  qed
  finally show ?thesis .
qed

lemma rate_accuracy:
  fixes k N :: nat
  assumes "0 < k" and "k \<le> N" and "N < 2 ^ 63"
  defines "x0 \<equiv> of_nat k / of_nat N"
  defines "v \<equiv> float_mul (round_double x0) 100"
  shows "0 \<le> v" and "\<bar>of_int (round_half_even (v * 100)) - 10000 * x0\<bar> \<le> 1 / 2 + 1 / 10 ^ 11"
proof -
  have Np: "0 < N" using assms(1,2) by simp
  have x0p: "0 < x0" using assms(1) Np by (simp add: x0_def)
  have x01: "x0 \<le> 1" using assms(2) Np by (simp add: x0_def)
  have "1 / of_nat N \<le> x0"
    using assms(1) Np by (simp add: x0_def divide_right_mono)
  with min_normal_le[OF Np assms(3)] have mn: "2 powi (- 1022) \<le> x0" by (rule order_trans)
  define q where "q = round_double x0"
  define d0 where "d0 = x0 / 2 ^ 53"
  have d0: "0 < d0" "d0 \<le> 1 / 2 ^ 53"
    using x0p x01 by (simp_all add: d0_def divide_right_mono)
  have qe: "\<bar>q - x0\<bar> \<le> d0"
    unfolding q_def d0_def by (rule round_double_error[OF mn])
  have d0x: "d0 \<le> x0 / 2" using x0p by (simp add: d0_def)
  have qlo: "x0 / 2 \<le> q" using qe d0x by (simp add: abs_le_iff)
  have qhi: "q \<le> 2" using qe d0 x01 by (simp add: abs_le_iff)
  have "2 powi (- 1022) \<le> q * 100" using mn qlo x0p by linarith
  from round_double_error[OF this]
  have ve: "\<bar>v - q * 100\<bar> \<le> q * 100 / 2 ^ 53"
    by (simp add: v_def float_mul_def q_def)
  have "q * 100 / 2 ^ 53 \<le> 200 / 2 ^ 53" using qhi by (simp add: divide_right_mono)
  with ve have ve': "\<bar>v - q * 100\<bar> \<le> 200 / 2 ^ 53" by linarith
  have "0 \<le> q * 100" using qlo x0p by linarith
  then show v0: "0 \<le> v" unfolding v_def float_mul_def q_def[symmetric] by (rule round_double_nonneg)
  have he: "\<bar>of_int (round_half_even (v * 100)) - v * 100\<bar> \<le> 1 / 2"
    by (rule round_half_even_error)
  define H :: rat where "H = of_int (round_half_even (v * 100))"
  have d0n: "d0 \<le> 1 / 9007199254740992" using d0(2) by simp
  have ven: "\<bar>v - q * 100\<bar> \<le> 200 / 9007199254740992" using ve' by simp
  have "\<bar>H - 10000 * x0\<bar> \<le> 1 / 2 + 1 / 100000000000"
    using he[folded H_def] ven qe d0n by linarith
  then show "\<bar>of_int (round_half_even (v * 100)) - 10000 * x0\<bar> \<le> 1 / 2 + 1 / 10 ^ 11"
    by (simp add: H_def)
qed

subsection \<open>The summaries\<close>

lemma map_of_map_key:
  "map_of (map (\<lambda>k. (k, f k)) ks) x = (if x \<in> set ks then Some (f x) else None)"
  by (induction ks) auto

lemma dict_get_unit_counts: "dict_get (unit_counts s) st 0 = count_status s st"
proof -
  let ?f = "\<lambda>st. length (filter (\<lambda>(i, u). status u = st) (units s))"
  let ?ks = "remdups (map (\<lambda>(i, u). status u) (units s))"
  have m: "map_of (map (\<lambda>k. (k, ?f k)) ?ks) st = (if st \<in> set ?ks then Some (?f st) else None)"
    by (rule map_of_map_key)
  show ?thesis
  proof (cases "st \<in> set ?ks")
    case True
    with m show ?thesis by (simp add: dict_get_def unit_counts_def count_status_def)
  next
    case False
    then have "filter (\<lambda>(i, u). status u = st) (units s) = []"
      by (auto simp: filter_empty_conv)
    with False m show ?thesis by (simp add: dict_get_def unit_counts_def count_status_def)
  qed
qed

lemma count_status_le: "count_status s st \<le> length (units s)"
  by (simp add: count_status_def)

lemma format_2f_nonneg: "0 \<le> v \<Longrightarrow> format_2f v = format_hundredths (round_half_even (v * 100))"
  by (simp add: format_2f_def)

lemma occupancy_rate_str_total:
  "\<exists>h. occupancy_rate_str k N = Inr (format_hundredths h @ ''%'') \<and>
        (k = 0 \<longrightarrow> h = 0) \<and>
        (0 < N \<and> k \<le> N \<and> N < 2 ^ 63 \<longrightarrow>
           \<bar>of_int h - 10000 * of_nat k / of_nat N\<bar> \<le> (1 / 2 + 1 / 10 ^ 11 :: rat))"
proof -
  define v where "v = (if N \<noteq> 0 then float_mul (round_double (of_nat k / of_nat N)) 100 else 0)"
  define h where "h = round_half_even (v * 100)"
  have "(0::rat) \<le> of_nat k / of_nat N" by simp
  then have "0 \<le> round_double (of_nat k / of_nat N)" by (rule round_double_nonneg)
  then have "0 \<le> round_double (of_nat k / of_nat N) * 100" by simp
  then have "0 \<le> float_mul (round_double (of_nat k / of_nat N)) 100"
    unfolding float_mul_def by (rule round_double_nonneg)
  then have v0: "0 \<le> v" by (simp add: v_def)
  have "occupancy_rate_str k N = Inr (format_2f v @ ''%'')"
    by (simp add: occupancy_rate_str_def int_truediv_def v_def)
  with v0 have str: "occupancy_rate_str k N = Inr (format_hundredths h @ ''%'')"
    by (simp add: format_2f_nonneg h_def)
  have zero: "k = 0 \<longrightarrow> h = 0"
    by (simp add: h_def v_def float_mul_def round_double_def round_half_even_def)
  have acc: "0 < N \<and> k \<le> N \<and> N < 2 ^ 63 \<longrightarrow>
           \<bar>of_int h - 10000 * of_nat k / of_nat N\<bar> \<le> (1 / 2 + 1 / 10 ^ 11 :: rat)"
  proof (cases "k = 0")
    case True
    with zero show ?thesis by simp
  next
    case False
    show ?thesis
    proof
      assume b: "0 < N \<and> k \<le> N \<and> N < 2 ^ 63"
      from False have "0 < k" by simp
      from rate_accuracy(2)[OF this, of N] b
      show "\<bar>of_int h - 10000 * of_nat k / of_nat N\<bar> \<le> (1 / 2 + 1 / 10 ^ 11 :: rat)"
        by (simp add: h_def v_def)
    qed
  qed
  from str zero acc show ?thesis by (intro exI[of _ h] conjI)
qed

text \<open>
  The expression of the occupancy rate on the two examples of the specification: no units,
  and two occupied units out of three.
\<close>

lemma occupancy_rate_str_examples:
  "occupancy_rate_str 0 0 = Inr ''0.00%'' \<and> occupancy_rate_str 2 3 = Inr ''66.67%''"
  by code_simp

text \<open>
  Claim C9. The landlord query of \<^verbatim>\<open>DashboardView.list\<close> filters on the keyword
  \<^verbatim>\<open>type\<close>, which is no field of \<^verbatim>\<open>Contact\<close>: the call raises \<open>FieldError\<close> on every
  store, and no landlord summary is returned. With the field's name, \<^verbatim>\<open>contact_type\<close>, as
  \<^verbatim>\<open>ContactViewSet.landlords\<close> and \<^verbatim>\<open>SummaryView.list\<close> write it, the same query gives
  the LANDLORD contacts with their unit counts.
\<close>

theorem dashboard_landlord_query_raises:
  "DashboardView_list s = Inl (FieldError ''type'') \<and>
   map_sum id (annotate_units_count s)
     (Contact_objects_filter s ''contact_type'' (ContactType_value LANDLORD)) =
   Inr (landlord_summary_spec s)"
proof -
  have inj: "ContactType_value a = ContactType_value b \<longleftrightarrow> a = b" for a b
    by (cases a; cases b) (simp_all add: ContactType_value_def)
  show ?thesis
    by (simp add: DashboardView_list_def Contact_objects_filter_def Contact_text_field_def
                  landlord_summary_spec_def annotate_units_count_def inj Let_def)
qed

text \<open>
  Claim C8. \<^verbatim>\<open>DashboardView.list\<close> counts the units of each status and then runs the
  landlord query, which raises \<open>FieldError\<close> (claim C9) before the response that holds
  the unit status summary is built: on no store does the call return a summary, and on
  the two examples of the specification, no units and three units of which two are
  occupied, it raises instead of reporting an occupancy rate.
\<close>

theorem dashboard_units_summary_unreported:
  "(\<forall>d. DashboardView_list s \<noteq> Inr d) \<and>
   DashboardView_list empty_store = Inl (FieldError ''type'') \<and>
   DashboardView_list three_unit_store = Inl (FieldError ''type'')"
  by (simp add: DashboardView_list_def Contact_objects_filter_def Contact_text_field_def Let_def)

end
